theory Spec2Isabelle
  imports Complex_Main "HOL-Library.Char_ord" "HOL-Library.List_Lexorder" "HOL-Library.Multiset"
begin

section \<open>Python values\<close>

text \<open>
  The program is Python: its data are the values that \<^verbatim>\<open>response.json()\<close> and the
  tool-argument mapping deliver. A dictionary is the list of its items in insertion order
  (the order matters to \<^verbatim>\<open>format_time_series\<close>); in a parsed value the keys of one
  dictionary are pairwise distinct and lookup takes the item with the key.

  A float is not-a-number, an infinity, the negative zero or a finite rational (every
  IEEE double is one of these). Comparison is by value and false when either side is
  not-a-number. How a decimal string or a large integer is rounded to a float, and how a
  float or a string is printed by \<^verbatim>\<open>repr\<close>, belongs to the interpreter and is a parameter
  (\<open>runtime\<close> below).
\<close>

datatype pyfloat = NaN | NegInf | PosInf | NegZero | Finite rat

datatype json =
    JNull
  | JBool bool
  | JInt int
  | JFloat pyfloat
  | JStr string
  | JList "json list"
  | JObj "(string \<times> json) list"

fun float_rank :: "pyfloat \<Rightarrow> (int \<times> rat) option" where
  "float_rank NaN = None"
| "float_rank NegInf = Some (- 1, 0)"
| "float_rank PosInf = Some (1, 0)"
| "float_rank NegZero = Some (0, 0)"
| "float_rank (Finite r) = Some (0, r)"

definition float_lt :: "pyfloat \<Rightarrow> pyfloat \<Rightarrow> bool" where
  "float_lt a b =
     (case (float_rank a, float_rank b) of
        (Some (i, x), Some (j, y)) \<Rightarrow> i < j \<or> (i = j \<and> x < y)
      | _ \<Rightarrow> False)"

definition float_eq :: "pyfloat \<Rightarrow> pyfloat \<Rightarrow> bool" where
  "float_eq a b =
     (case (float_rank a, float_rank b) of
        (Some p, Some q) \<Rightarrow> p = q
      | _ \<Rightarrow> False)"

text \<open>The numeric value of \<^verbatim>\<open>bool\<close>, \<^verbatim>\<open>int\<close> and \<^verbatim>\<open>float\<close> objects (\<^verbatim>\<open>bool\<close> is a subclass of \<^verbatim>\<open>int\<close>).\<close>

fun num_val :: "json \<Rightarrow> pyfloat option" where
  "num_val (JBool b) = Some (Finite (if b then 1 else 0))"
| "num_val (JInt i) = Some (Finite (of_int i))"
| "num_val (JFloat f) = Some f"
| "num_val _ = None"

text \<open>\<^verbatim>\<open>v == n\<close> for an integer literal \<open>n\<close>, and \<^verbatim>\<open>v == "s"\<close> for a string literal.\<close>

definition py_eq_int :: "json \<Rightarrow> int \<Rightarrow> bool" where
  "py_eq_int v n = (case num_val v of Some f \<Rightarrow> float_eq f (Finite (of_int n)) | None \<Rightarrow> False)"

definition py_eq_str :: "json \<Rightarrow> string \<Rightarrow> bool" where
  "py_eq_str v s = (v = JStr s)"

text \<open>Truth value testing: \<^verbatim>\<open>not v\<close> holds for None, False, zero and empty containers.\<close>

fun truthy :: "json \<Rightarrow> bool" where
  "truthy JNull = False"
| "truthy (JBool b) = b"
| "truthy (JInt i) = (i \<noteq> 0)"
| "truthy (JFloat f) = (\<not> float_eq f (Finite 0))"
| "truthy (JStr s) = (s \<noteq> [])"
| "truthy (JList xs) = (xs \<noteq> [])"
| "truthy (JObj kvs) = (kvs \<noteq> [])"

subsection \<open>Exceptions raised by the interpreter\<close>

text \<open>
  Each operation that Python can refuse returns a sum: \<open>Inl\<close> the exception, \<open>Inr\<close> the
  value. The exception records what was refused; the text \<^verbatim>\<open>str(e)\<close> that the interpreter
  gives it is the runtime's \<open>fault_text\<close>.
\<close>

datatype fault =
    NoAttribute json string    \<comment> \<open>AttributeError: the object has no such method\<close>
  | NotContainer json          \<comment> \<open>TypeError: right operand of \<^verbatim>\<open>in\<close>\<close>
  | BadSubscript json          \<comment> \<open>TypeError: \<^verbatim>\<open>v["key"]\<close> on a value that is no dictionary\<close>
  | KeyMissing string          \<comment> \<open>KeyError\<close>
  | NotIterable json           \<comment> \<open>TypeError: argument of \<^verbatim>\<open>sorted\<close>\<close>
  | Unhashable json            \<comment> \<open>TypeError: a list or dictionary used as dictionary key\<close>
  | Unorderable string json json
      \<comment> \<open>TypeError: the comparison (\<^verbatim>\<open><\<close> or \<^verbatim>\<open>>\<close>) is not supported between these two values\<close>
  | IntTooLarge int            \<comment> \<open>OverflowError: int too large to convert to float\<close>
  | BadSliceIndex json         \<comment> \<open>TypeError: slice index that is no integer\<close>

record runtime =
  float_of_str :: "string \<Rightarrow> pyfloat option"
    \<comment> \<open>\<^verbatim>\<open>float(s)\<close> on a string; \<open>None\<close> is ValueError\<close>
  float_of_big_int :: "int \<Rightarrow> pyfloat option"
    \<comment> \<open>\<^verbatim>\<open>float(i)\<close> beyond \<open>2 ^ 53\<close>, rounded; \<open>None\<close> is OverflowError\<close>
  float_repr :: "pyfloat \<Rightarrow> string"
  str_repr :: "string \<Rightarrow> string"
  seq_lt :: "json list \<Rightarrow> json list \<Rightarrow> bool option"
    \<comment> \<open>\<^verbatim>\<open><\<close> between two lists; \<open>None\<close> is TypeError\<close>
  fault_text :: "fault \<Rightarrow> string"
  str_upper :: "string \<Rightarrow> string"

definition bind :: "fault + 'a \<Rightarrow> ('a \<Rightarrow> fault + 'b) \<Rightarrow> fault + 'b" where
  "bind m f = (case m of Inl e \<Rightarrow> Inl e | Inr v \<Rightarrow> f v)"

subsection \<open>Printing\<close>

fun digit_char :: "nat \<Rightarrow> char" where
  "digit_char n = char_of (48 + n)"

function str_nat :: "nat \<Rightarrow> string" where
  "str_nat n = (if n < 10 then [digit_char n] else str_nat (n div 10) @ [digit_char (n mod 10)])"
  by pat_completeness auto
termination
  by (relation "measure id") auto

definition str_int :: "int \<Rightarrow> string" where
  "str_int i = (if i < 0 then CHR ''-'' # str_nat (nat (- i)) else str_nat (nat i))"

fun py_join :: "string \<Rightarrow> string list \<Rightarrow> string" where
  "py_join sep [] = []"
| "py_join sep [x] = x"
| "py_join sep (x # y # ys) = x @ sep @ py_join sep (y # ys)"

fun py_repr :: "runtime \<Rightarrow> json \<Rightarrow> string" where
  "py_repr rt JNull = ''None''"
| "py_repr rt (JBool b) = (if b then ''True'' else ''False'')"
| "py_repr rt (JInt i) = str_int i"
| "py_repr rt (JFloat f) = float_repr rt f"
| "py_repr rt (JStr s) = str_repr rt s"
| "py_repr rt (JList xs) = ''['' @ py_join '', '' (map (py_repr rt) xs) @ '']''"
| "py_repr rt (JObj kvs) =
     ''{'' @ py_join '', '' (map (\<lambda>kv. str_repr rt (fst kv) @ '': '' @ py_repr rt (snd kv)) kvs) @ ''}''"

text \<open>\<^verbatim>\<open>str(v)\<close>, which is also what a replacement field \<^verbatim>\<open>{v}\<close> of an f-string prints.\<close>

definition py_str :: "runtime \<Rightarrow> json \<Rightarrow> string" where
  "py_str rt v = (case v of JStr s \<Rightarrow> s | _ \<Rightarrow> py_repr rt v)"

subsection \<open>Dictionaries, membership, subscripts\<close>

text \<open>\<^verbatim>\<open>d[k] = v\<close>: an existing key keeps its place, a new one goes to the end.\<close>

fun dict_setitem :: "string \<Rightarrow> json \<Rightarrow> (string \<times> json) list \<Rightarrow> (string \<times> json) list" where
  "dict_setitem k v [] = [(k, v)]"
| "dict_setitem k v (p # ps) = (if fst p = k then (k, v) # ps else p # dict_setitem k v ps)"

text \<open>\<^verbatim>\<open>d.update(e)\<close> sets the items of \<open>e\<close> one after the other.\<close>

fun dict_update :: "(string \<times> json) list \<Rightarrow> (string \<times> json) list \<Rightarrow> (string \<times> json) list" where
  "dict_update d [] = d"
| "dict_update d (p # ps) = dict_update (dict_setitem (fst p) (snd p) d) ps"

text \<open>\<^verbatim>\<open>d.get(k, dflt)\<close> on a dictionary: the item with the key, or the default.\<close>

definition dict_get :: "(string \<times> json) list \<Rightarrow> string \<Rightarrow> json \<Rightarrow> json" where
  "dict_get d k dflt = (case map_of d k of Some v \<Rightarrow> v | None \<Rightarrow> dflt)"

text \<open>\<^verbatim>\<open>v.get(k, dflt)\<close> on any value: only a dictionary has the method.\<close>

definition py_get :: "json \<Rightarrow> string \<Rightarrow> json \<Rightarrow> fault + json" where
  "py_get v k dflt =
     (case v of
        JObj kvs \<Rightarrow> Inr (dict_get kvs k dflt)
      | _ \<Rightarrow> Inl (NoAttribute v ''get''))"

fun is_prefix :: "string \<Rightarrow> string \<Rightarrow> bool" where
  "is_prefix [] s = True"
| "is_prefix (c # p) [] = False"
| "is_prefix (c # p) (d # s) = (c = d \<and> is_prefix p s)"

fun is_substring :: "string \<Rightarrow> string \<Rightarrow> bool" where
  "is_substring p [] = (p = [])"
| "is_substring p (c # s) = (is_prefix p (c # s) \<or> is_substring p s)"

text \<open>
  \<^verbatim>\<open>"s" in v\<close>: a key of a dictionary, an element of a list (only the string itself
  equals it), a substring of a string; any other right operand raises TypeError.
\<close>

definition py_in :: "string \<Rightarrow> json \<Rightarrow> fault + bool" where
  "py_in s v =
     (case v of
        JObj kvs \<Rightarrow> Inr (s \<in> set (map fst kvs))
      | JList xs \<Rightarrow> Inr (JStr s \<in> set xs)
      | JStr t \<Rightarrow> Inr (is_substring s t)
      | _ \<Rightarrow> Inl (NotContainer v))"

text \<open>\<^verbatim>\<open>v["s"]\<close>: the item of a dictionary; a list or a string refuses a string index.\<close>

definition py_subscript :: "json \<Rightarrow> string \<Rightarrow> fault + json" where
  "py_subscript v s =
     (case v of
        JObj kvs \<Rightarrow> (case map_of kvs s of Some x \<Rightarrow> Inr x | None \<Rightarrow> Inl (KeyMissing s))
      | _ \<Rightarrow> Inl (BadSubscript v))"

section \<open>The request gateway (tools.py, make_alpha_request)\<close>

text \<open>
  The HTTP client is outside the program: what \<^verbatim>\<open>client.get\<close> does with the query
  parameters is the environment's \<open>http_get\<close>. It raises, or returns a response with its
  status code, its body text, and what \<^verbatim>\<open>response.json()\<close> gives on it (\<open>Inl\<close> the text of
  the exception when the body does not decode). \<open>status_error\<close> is the text of the
  HTTPStatusError that \<^verbatim>\<open>raise_for_status\<close> raises when the status is not 2xx.

  The modules technical_indicators, institutional_data and futures_strategy are not among
  the sources. What a tool built on them does once its symbol is validated and in upper
  case (the text it returns, or the exception it lets through) is the environment's
  \<open>analysis\<close>, a function of the tool name, the symbol and the arguments.
\<close>

record response =
  status_code :: int
  resp_text :: string
  resp_json :: "string + json"
  status_error :: string

datatype http_result =
    TimeoutException
  | ConnectError
  | OtherException string
  | Response response

record environment =
  API_KEY :: "string option"
  http_get :: "(string \<times> json) list \<Rightarrow> http_result"
  analysis :: "string \<Rightarrow> string \<Rightarrow> (string \<times> json) list \<Rightarrow> fault + string"

text \<open>
  The function returns a dictionary or a string (\<^verbatim>\<open>dict[str, Any] | str\<close>) and its callers
  tell the two apart with \<^verbatim>\<open>isinstance(_, str)\<close>: a string is a failure, anything else the
  structured body. A body that is itself a JSON string comes back as a string.
\<close>

datatype outcome = Failure string | Structured json

definition returned :: "json \<Rightarrow> outcome" where
  "returned data = (case data of JStr s \<Rightarrow> Failure s | _ \<Rightarrow> Structured data)"

definition opt_str :: "string option \<Rightarrow> json" where
  "opt_str s = (case s of None \<Rightarrow> JNull | Some x \<Rightarrow> JStr x)"

text \<open>Lines 10 to 16: the query parameters.\<close>

definition request_params ::
  "environment \<Rightarrow> string \<Rightarrow> string option \<Rightarrow> (string \<times> json) list option \<Rightarrow> (string \<times> json) list" where
  "request_params env function symbol additional_params =
     (let params = [(''function'', JStr function),
                    (''symbol'', opt_str symbol),
                    (''apikey'', opt_str (API_KEY env))]
      in case additional_params of
           None \<Rightarrow> params
         | Some extra \<Rightarrow> if extra = [] then params else dict_update params extra)"

text \<open>Lines 33 to 41: the checks on the decoded body.\<close>

definition provider_checks :: "runtime \<Rightarrow> json \<Rightarrow> fault + outcome" where
  "provider_checks rt data =
     bind (py_in ''Error Message'' data) (\<lambda>has_error.
       if has_error then
         bind (py_subscript data ''Error Message'') (\<lambda>m.
           Inr (Failure (''Alpha Vantage API error: '' @ py_str rt m)))
       else
         bind (py_in ''Note'' data) (\<lambda>has_note.
           bind (if has_note
                 then bind (py_subscript data ''Note'') (py_in ''API call frequency'')
                 else Inr False) (\<lambda>frequency.
             if frequency then
               bind (py_subscript data ''Note'') (\<lambda>note.
                 Inr (Failure (''Rate limit warning: '' @ py_str rt note)))
             else Inr (returned data))))"

definition is_success :: "response \<Rightarrow> bool" where
  "is_success r = (200 \<le> status_code r \<and> status_code r \<le> 299)"

definition make_alpha_request ::
  "runtime \<Rightarrow> environment \<Rightarrow> string \<Rightarrow> string option \<Rightarrow> (string \<times> json) list option \<Rightarrow> outcome" where
  "make_alpha_request rt env function symbol additional_params =
     (case http_get env (request_params env function symbol additional_params) of
        TimeoutException \<Rightarrow>
          Failure ''Request timed out after 30 seconds. The Alpha Vantage API may be experiencing delays.''
      | ConnectError \<Rightarrow>
          Failure ''Failed to connect to Alpha Vantage API. Please check your internet connection.''
      | OtherException msg \<Rightarrow> Failure (''Unexpected error occurred: '' @ msg)
      | Response r \<Rightarrow>
          if status_code r = 429 then
            Failure (''Rate limit exceeded. Error details: '' @ resp_text r)
          else if status_code r = 403 then
            Failure (''API key invalid or expired. Error details: '' @ resp_text r)
          else if \<not> is_success r then
            Failure (''HTTP error occurred: '' @ status_error r @ '' - Response: '' @ resp_text r)
          else
            (case resp_json r of
               Inl msg \<Rightarrow> Failure (''Unexpected error occurred: '' @ msg)
             | Inr data \<Rightarrow>
                 (case provider_checks rt data of
                    Inl e \<Rightarrow> Failure (''Unexpected error occurred: '' @ fault_text rt e)
                  | Inr out \<Rightarrow> out)))"

section \<open>The formatters (tools.py)\<close>

text \<open>
  Every formatter is \<^verbatim>\<open>try: body except Exception as e: return f"Error formatting ... {str(e)}"\<close>.
  The body is the function \<open>_body\<close>, with the exceptions of the interpreter as \<open>Inl\<close>; the
  formatter itself is the guard around it.
\<close>

definition lit :: "string \<Rightarrow> fault + string" where
  "lit s = Inr s"

text \<open>A replacement field \<^verbatim>\<open>{obj.get(k, dflt)}\<close>.\<close>

definition field :: "runtime \<Rightarrow> json \<Rightarrow> string \<Rightarrow> string \<Rightarrow> fault + string" where
  "field rt obj k dflt = bind (py_get obj k (JStr dflt)) (\<lambda>v. Inr (py_str rt v))"

text \<open>An f-string: its parts are evaluated from left to right and concatenated.\<close>

fun fstring :: "(fault + string) list \<Rightarrow> fault + string" where
  "fstring [] = Inr []"
| "fstring (p # ps) = bind p (\<lambda>s. bind (fstring ps) (\<lambda>t. Inr (s @ t)))"

text \<open>A loop that builds one result per element and stops at the first exception.\<close>

fun map_bind :: "('a \<Rightarrow> fault + 'b) \<Rightarrow> 'a list \<Rightarrow> fault + 'b list" where
  "map_bind f [] = Inr []"
| "map_bind f (x # xs) = bind (f x) (\<lambda>y. bind (map_bind f xs) (\<lambda>ys. Inr (y # ys)))"

definition guard :: "runtime \<Rightarrow> string \<Rightarrow> fault + string \<Rightarrow> string" where
  "guard rt what body =
     (case body of
        Inr s \<Rightarrow> s
      | Inl e \<Rightarrow> ''Error formatting '' @ what @ '' data: '' @ fault_text rt e)"

subsection \<open>format_quote\<close>

definition format_quote_body :: "runtime \<Rightarrow> json \<Rightarrow> fault + string" where
  "format_quote_body rt quote_data =
     bind (py_get quote_data ''Global Quote'' (JObj [])) (\<lambda>global_quote.
       if \<not> truthy global_quote then Inr ''No quote data available in the response''
       else fstring
         [lit ''Price: $'', field rt global_quote ''05. price'' ''N/A'', lit ''\<newline>'',
          lit ''Change: $'', field rt global_quote ''09. change'' ''N/A'', lit '' '',
          lit ''('', field rt global_quote ''10. change percent'' ''N/A'', lit '')\<newline>'',
          lit ''Volume: '', field rt global_quote ''06. volume'' ''N/A'', lit ''\<newline>'',
          lit ''High: $'', field rt global_quote ''03. high'' ''N/A'', lit ''\<newline>'',
          lit ''Low: $'', field rt global_quote ''04. low'' ''N/A'', lit ''\<newline>'',
          lit ''---''])"

definition format_quote :: "runtime \<Rightarrow> json \<Rightarrow> string" where
  "format_quote rt quote_data = guard rt ''quote'' (format_quote_body rt quote_data)"

subsection \<open>format_company_info\<close>

definition format_company_info_body :: "runtime \<Rightarrow> json \<Rightarrow> fault + string" where
  "format_company_info_body rt overview_data =
     (if \<not> truthy overview_data then Inr ''No company information available in the response''
      else fstring
        [lit ''Name: '', field rt overview_data ''Name'' ''N/A'', lit ''\<newline>'',
         lit ''Sector: '', field rt overview_data ''Sector'' ''N/A'', lit ''\<newline>'',
         lit ''Industry: '', field rt overview_data ''Industry'' ''N/A'', lit ''\<newline>'',
         lit ''Market Cap: $'', field rt overview_data ''MarketCapitalization'' ''N/A'', lit ''\<newline>'',
         lit ''Description: '', field rt overview_data ''Description'' ''N/A'', lit ''\<newline>'',
         lit ''Exchange: '', field rt overview_data ''Exchange'' ''N/A'', lit ''\<newline>'',
         lit ''Currency: '', field rt overview_data ''Currency'' ''N/A'', lit ''\<newline>'',
         lit ''---''])"

definition format_company_info :: "runtime \<Rightarrow> json \<Rightarrow> string" where
  "format_company_info rt overview_data = guard rt ''company'' (format_company_info_body rt overview_data)"

subsection \<open>format_crypto_rate\<close>

definition format_crypto_rate_body :: "runtime \<Rightarrow> json \<Rightarrow> fault + string" where
  "format_crypto_rate_body rt crypto_data =
     bind (py_get crypto_data ''Realtime Currency Exchange Rate'' (JObj [])) (\<lambda>realtime_data.
       if \<not> truthy realtime_data then Inr ''No exchange rate data available in the response''
       else fstring
         [lit ''From: '', field rt realtime_data ''2. From_Currency Name'' ''N/A'',
          lit '' ('', field rt realtime_data ''1. From_Currency Code'' ''N/A'', lit '')\<newline>'',
          lit ''To: '', field rt realtime_data ''4. To_Currency Name'' ''N/A'',
          lit '' ('', field rt realtime_data ''3. To_Currency Code'' ''N/A'', lit '')\<newline>'',
          lit ''Exchange Rate: '', field rt realtime_data ''5. Exchange Rate'' ''N/A'', lit ''\<newline>'',
          lit ''Last Updated: '', field rt realtime_data ''6. Last Refreshed'' ''N/A'',
          lit '' '', field rt realtime_data ''7. Time Zone'' ''N/A'', lit ''\<newline>'',
          lit ''Bid Price: '', field rt realtime_data ''8. Bid Price'' ''N/A'', lit ''\<newline>'',
          lit ''Ask Price: '', field rt realtime_data ''9. Ask Price'' ''N/A'', lit ''\<newline>'',
          lit ''---''])"

definition format_crypto_rate :: "runtime \<Rightarrow> json \<Rightarrow> string" where
  "format_crypto_rate rt crypto_data = guard rt ''cryptocurrency'' (format_crypto_rate_body rt crypto_data)"

subsection \<open>format_time_series\<close>

text \<open>\<^verbatim>\<open>v.items()\<close>: the items of a dictionary in its order.\<close>

definition py_items :: "json \<Rightarrow> fault + (string \<times> json) list" where
  "py_items v = (case v of JObj kvs \<Rightarrow> Inr kvs | _ \<Rightarrow> Inl (NoAttribute v ''items''))"

text \<open>The string appended for one \<^verbatim>\<open>date, values\<close> pair (lines 127 to 135).\<close>

definition day_block :: "runtime \<Rightarrow> string \<times> json \<Rightarrow> fault + string" where
  "day_block rt item =
     (let date = fst item; values = snd item in
      fstring
        [lit ''Date: '', lit date, lit ''\<newline>'',
         lit ''Open: $'', field rt values ''1. open'' ''N/A'', lit ''\<newline>'',
         lit ''High: $'', field rt values ''2. high'' ''N/A'', lit ''\<newline>'',
         lit ''Low: $'', field rt values ''3. low'' ''N/A'', lit ''\<newline>'',
         lit ''Close: $'', field rt values ''4. close'' ''N/A'', lit ''\<newline>'',
         lit ''Volume: '', field rt values ''5. volume'' ''N/A'', lit ''\<newline>'',
         lit ''---\<newline>''])"

definition format_time_series_body :: "runtime \<Rightarrow> json \<Rightarrow> fault + string" where
  "format_time_series_body rt time_series_data =
     bind (py_get time_series_data ''Time Series (Daily)'' (JObj [])) (\<lambda>time_series.
       if \<not> truthy time_series then Inr ''No time series data available in the response''
       else
         bind (py_get time_series_data ''Meta Data'' (JObj [])) (\<lambda>metadata.
         bind (py_get metadata ''2. Symbol'' (JStr ''Unknown'')) (\<lambda>symbol.
         bind (py_get metadata ''3. Last Refreshed'' (JStr ''Unknown'')) (\<lambda>last_refreshed.
           let formatted_data =
                 [''Time Series Data for '' @ py_str rt symbol @
                  '' (Last Refreshed: '' @ py_str rt last_refreshed @ '')\<newline>\<newline>'']
           in
             bind (py_items time_series) (\<lambda>items.
             bind (map_bind (day_block rt) (take 5 items)) (\<lambda>blocks.
               Inr (py_join ''\<newline>'' (formatted_data @ blocks))))))))"

definition format_time_series :: "runtime \<Rightarrow> json \<Rightarrow> string" where
  "format_time_series rt time_series_data =
     guard rt ''time series'' (format_time_series_body rt time_series_data)"

subsection \<open>format_historical_options\<close>

text \<open>
  \<^verbatim>\<open>contract.get(sort_by, 0)\<close>: \<open>sort_by\<close> is whatever the caller passed. The keys of a parsed
  dictionary are strings, so a key of another hashable type is never found; a list or a
  dictionary cannot be hashed.
\<close>

definition py_get_any :: "json \<Rightarrow> json \<Rightarrow> json \<Rightarrow> fault + json" where
  "py_get_any v k dflt =
     (case v of
        JObj kvs \<Rightarrow>
          (case k of
             JStr s \<Rightarrow> Inr (dict_get kvs s dflt)
           | JList _ \<Rightarrow> Inl (Unhashable k)
           | JObj _ \<Rightarrow> Inl (Unhashable k)
           | _ \<Rightarrow> Inr dflt)
      | _ \<Rightarrow> Inl (NoAttribute v ''get''))"

text \<open>\<^verbatim>\<open>s.replace(c, '')\<close> for a single character \<open>c\<close>.\<close>

definition remove_char :: "char \<Rightarrow> string \<Rightarrow> string" where
  "remove_char c s = filter (\<lambda>d. d \<noteq> c) s"

text \<open>\<^verbatim>\<open>float(i)\<close>: an integer up to \<open>2 ^ 53\<close> in magnitude is a float as it is.\<close>

definition float_of_int :: "runtime \<Rightarrow> int \<Rightarrow> pyfloat option" where
  "float_of_int rt i =
     (if \<bar>i\<bar> \<le> 2 ^ 53 then Some (Finite (of_int i)) else float_of_big_int rt i)"

text \<open>
  Lines 159 to 167. \<^verbatim>\<open>float\<close> raises ValueError on a string that is no number and TypeError
  on None, a list or a dictionary: both are caught and \<open>value\<close> is returned, which for a
  string is by then the string without its \<open>$\<close> and \<open>%\<close>. OverflowError is not caught. The
  lookup in the first line is outside the \<^verbatim>\<open>try\<close>.
\<close>

definition get_sort_key :: "runtime \<Rightarrow> json \<Rightarrow> json \<Rightarrow> fault + json" where
  "get_sort_key rt sort_by contract =
     bind (py_get_any contract sort_by (JInt 0)) (\<lambda>value.
       case value of
         JStr s \<Rightarrow>
           (let value = remove_char (CHR ''%'') (remove_char (CHR ''$'') s) in
            case float_of_str rt value of
              Some f \<Rightarrow> Inr (JFloat f)
            | None \<Rightarrow> Inr (JStr value))
       | JInt i \<Rightarrow>
           (case float_of_int rt i of
              Some f \<Rightarrow> Inr (JFloat f)
            | None \<Rightarrow> Inl (IntTooLarge i))
       | JBool b \<Rightarrow> Inr (JFloat (Finite (if b then 1 else 0)))
       | JFloat f \<Rightarrow> Inr (JFloat f)
       | _ \<Rightarrow> Inr value)"

text \<open>
  \<^verbatim>\<open>a < b\<close>: numbers by value, strings by code point (the byte order of UTF-8 is the
  order of the code points), lists by the runtime; anything else is TypeError.
\<close>

definition py_lt :: "runtime \<Rightarrow> json \<Rightarrow> json \<Rightarrow> fault + bool" where
  "py_lt rt a b =
     (case (num_val a, num_val b) of
        (Some x, Some y) \<Rightarrow> Inr (float_lt x y)
      | _ \<Rightarrow>
        (case (a, b) of
           (JStr s, JStr t) \<Rightarrow> Inr (s < t)
         | (JList xs, JList ys) \<Rightarrow>
             (case seq_lt rt xs ys of Some r \<Rightarrow> Inr r | None \<Rightarrow> Inl (Unorderable ''<'' a b))
         | _ \<Rightarrow> Inl (Unorderable ''<'' a b)))"

text \<open>
  \<^verbatim>\<open>sorted(xs, key=f, reverse=r)\<close>. The builtin computes every key first, in the order of
  the list, then sorts with \<^verbatim>\<open><\<close> on the keys alone; the sort is stable, and a reversed
  sort is the stable sort of the reversed list, reversed. It is modelled by the stable
  insertion sort: on keys that \<^verbatim>\<open><\<close> orders (numbers without not-a-number, or strings) every
  stable sort returns the same list. An element is compared with the ones after it, the
  later one on the left of \<^verbatim>\<open><\<close>.
\<close>

fun insert_key :: "runtime \<Rightarrow> json \<times> 'a \<Rightarrow> (json \<times> 'a) list \<Rightarrow> fault + (json \<times> 'a) list" where
  "insert_key rt x [] = Inr [x]"
| "insert_key rt x (y # ys) =
     bind (py_lt rt (fst y) (fst x)) (\<lambda>less.
       if less then bind (insert_key rt x ys) (\<lambda>zs. Inr (y # zs))
       else Inr (x # y # ys))"

fun sort_pairs :: "runtime \<Rightarrow> (json \<times> 'a) list \<Rightarrow> fault + (json \<times> 'a) list" where
  "sort_pairs rt [] = Inr []"
| "sort_pairs rt (x # xs) = bind (sort_pairs rt xs) (insert_key rt x)"

text \<open>Iteration: the elements of a list, the keys of a dictionary, the characters of a string.\<close>

definition py_iter :: "json \<Rightarrow> fault + json list" where
  "py_iter v =
     (case v of
        JList xs \<Rightarrow> Inr xs
      | JObj kvs \<Rightarrow> Inr (map (\<lambda>kv. JStr (fst kv)) kvs)
      | JStr s \<Rightarrow> Inr (map (\<lambda>c. JStr [c]) s)
      | _ \<Rightarrow> Inl (NotIterable v))"

definition sorted_by_key :: "runtime \<Rightarrow> ('a \<Rightarrow> fault + json) \<Rightarrow> bool \<Rightarrow> 'a list \<Rightarrow> fault + 'a list" where
  "sorted_by_key rt key reverse xs =
     bind (map_bind key xs) (\<lambda>keys.
       let pairs = zip keys xs in
       bind (sort_pairs rt (if reverse then rev pairs else pairs)) (\<lambda>sorted_pairs.
         Inr (map snd (if reverse then rev sorted_pairs else sorted_pairs))))"

definition py_sorted :: "runtime \<Rightarrow> (json \<Rightarrow> fault + json) \<Rightarrow> bool \<Rightarrow> json \<Rightarrow> fault + json list" where
  "py_sorted rt key reverse v = bind (py_iter v) (sorted_by_key rt key reverse)"

text \<open>An object usable as an index: an \<^verbatim>\<open>int\<close>, of which \<^verbatim>\<open>bool\<close> is a subclass.\<close>

fun as_index :: "json \<Rightarrow> int option" where
  "as_index (JInt n) = Some n"
| "as_index (JBool b) = Some (if b then 1 else 0)"
| "as_index _ = None"

text \<open>\<^verbatim>\<open>xs[:limit]\<close>: a negative bound counts from the end, None is no bound.\<close>

definition slice_to :: "'a list \<Rightarrow> json \<Rightarrow> fault + 'a list" where
  "slice_to xs limit =
     (case as_index limit of
        Some n \<Rightarrow> Inr (if 0 \<le> n then take (nat n) xs else take (length xs - nat (- n)) xs)
      | None \<Rightarrow> (case limit of JNull \<Rightarrow> Inr xs | _ \<Rightarrow> Inl (BadSliceIndex limit)))"

text \<open>The lines appended for one contract (lines 180 to 197).\<close>

definition contract_block :: "runtime \<Rightarrow> json \<Rightarrow> fault + string" where
  "contract_block rt contract =
     fstring
       [lit ''Contract Details:\<newline>'',
        lit ''Contract ID: '', field rt contract ''contractID'' ''N/A'', lit ''\<newline>'',
        lit ''Expiration: '', field rt contract ''expiration'' ''N/A'', lit ''\<newline>'',
        lit ''Strike: $'', field rt contract ''strike'' ''N/A'', lit ''\<newline>'',
        lit ''Type: '', field rt contract ''type'' ''N/A'', lit ''\<newline>'',
        lit ''Last: $'', field rt contract ''last'' ''N/A'', lit ''\<newline>'',
        lit ''Mark: $'', field rt contract ''mark'' ''N/A'', lit ''\<newline>'',
        lit ''Bid: $'', field rt contract ''bid'' ''N/A'',
        lit '' (Size: '', field rt contract ''bid_size'' ''N/A'', lit '')\<newline>'',
        lit ''Ask: $'', field rt contract ''ask'' ''N/A'',
        lit '' (Size: '', field rt contract ''ask_size'' ''N/A'', lit '')\<newline>'',
        lit ''Volume: '', field rt contract ''volume'' ''N/A'', lit ''\<newline>'',
        lit ''Open Interest: '', field rt contract ''open_interest'' ''N/A'', lit ''\<newline>'',
        lit ''IV: '', field rt contract ''implied_volatility'' ''N/A'', lit ''\<newline>'',
        lit ''Delta: '', field rt contract ''delta'' ''N/A'', lit ''\<newline>'',
        lit ''Gamma: '', field rt contract ''gamma'' ''N/A'', lit ''\<newline>'',
        lit ''Theta: '', field rt contract ''theta'' ''N/A'', lit ''\<newline>'',
        lit ''Vega: '', field rt contract ''vega'' ''N/A'', lit ''\<newline>'',
        lit ''Rho: '', field rt contract ''rho'' ''N/A'', lit ''\<newline>'',
        lit ''---\<newline>'']"

text \<open>
  Lines 199 and 200. With a limit that is no integer the comparison \<^verbatim>\<open>len(...) > limit\<close>
  is reached only for None (every other one has failed in the slice before, or equals
  \<open>-1\<close>), where it raises TypeError.
\<close>

definition truncation_suffix :: "'a list \<Rightarrow> json \<Rightarrow> fault + string list" where
  "truncation_suffix sorted_chain limit =
     (if py_eq_int limit (- 1) then Inr []
      else
        (case as_index limit of
           Some n \<Rightarrow>
             Inr (if int (length sorted_chain) > n
                  then [''\<newline>... and '' @ str_int (int (length sorted_chain) - n) @ '' more contracts'']
                  else [])
         | None \<Rightarrow> Inl (Unorderable ''>'' (JInt (int (length sorted_chain))) limit)))"

definition format_historical_options_body ::
  "runtime \<Rightarrow> json \<Rightarrow> json \<Rightarrow> json \<Rightarrow> json \<Rightarrow> fault + string" where
  "format_historical_options_body rt options_data limit sort_by sort_order =
     bind (py_in ''Error Message'' options_data) (\<lambda>has_error.
       if has_error then
         bind (py_subscript options_data ''Error Message'') (\<lambda>m. Inr (''Error: '' @ py_str rt m))
       else
         bind (py_get options_data ''data'' (JList [])) (\<lambda>options_chain.
           if \<not> truthy options_chain then Inr ''No options data available in the response''
           else
             bind (py_get options_data ''message'' (JStr ''N/A'')) (\<lambda>message.
               let formatted =
                     [''Historical Options Data:\<newline>'',
                      ''Status: '' @ py_str rt message @ ''\<newline>'',
                      ''Sorted by: '' @ py_str rt sort_by @ '' ('' @ py_str rt sort_order @ '')\<newline>\<newline>'']
               in
                 bind (py_sorted rt (get_sort_key rt sort_by) (py_eq_str sort_order ''desc'') options_chain)
                   (\<lambda>sorted_chain.
                 bind (if py_eq_int limit (- 1) then Inr sorted_chain else slice_to sorted_chain limit)
                   (\<lambda>display_contracts.
                 bind (map_bind (contract_block rt) display_contracts) (\<lambda>blocks.
                 bind (truncation_suffix sorted_chain limit) (\<lambda>suffix.
                   Inr (concat (formatted @ blocks @ suffix)))))))))"

definition format_historical_options :: "runtime \<Rightarrow> json \<Rightarrow> json \<Rightarrow> json \<Rightarrow> json \<Rightarrow> string" where
  "format_historical_options rt options_data limit sort_by sort_order =
     guard rt ''options''
       (format_historical_options_body rt options_data limit sort_by sort_order)"

section \<open>Tool dispatch (server.py, handle_call_tool)\<close>

text \<open>The result of a call is a list of content blocks or an exception that leaves the handler.\<close>

datatype content = TextContent string

definition text_result :: "string \<Rightarrow> fault + content list" where
  "text_result s = Inr [TextContent s]"

text \<open>\<^verbatim>\<open>v.upper()\<close>: only a string has the method.\<close>

definition py_upper :: "runtime \<Rightarrow> json \<Rightarrow> fault + string" where
  "py_upper rt v = (case v of JStr s \<Rightarrow> Inr (str_upper rt s) | _ \<Rightarrow> Inl (NoAttribute v ''upper''))"

definition get_stock_quote :: "runtime \<Rightarrow> environment \<Rightarrow> (string \<times> json) list \<Rightarrow> fault + content list" where
  "get_stock_quote rt env arguments =
     (let symbol = dict_get arguments ''symbol'' JNull in
      if \<not> truthy symbol then text_result ''Missing symbol parameter''
      else
        bind (py_upper rt symbol) (\<lambda>symbol.
          case make_alpha_request rt env ''GLOBAL_QUOTE'' (Some symbol) None of
            Failure quote_data \<Rightarrow> text_result (''Error: '' @ quote_data)
          | Structured quote_data \<Rightarrow>
              text_result (''Stock quote for '' @ symbol @ '':\<newline>\<newline>'' @ format_quote rt quote_data)))"

definition get_company_info :: "runtime \<Rightarrow> environment \<Rightarrow> (string \<times> json) list \<Rightarrow> fault + content list" where
  "get_company_info rt env arguments =
     (let symbol = dict_get arguments ''symbol'' JNull in
      if \<not> truthy symbol then text_result ''Missing symbol parameter''
      else
        bind (py_upper rt symbol) (\<lambda>symbol.
          case make_alpha_request rt env ''OVERVIEW'' (Some symbol) None of
            Failure company_data \<Rightarrow> text_result (''Error: '' @ company_data)
          | Structured company_data \<Rightarrow>
              text_result (''Company information for '' @ symbol @ '':\<newline>\<newline>'' @
                           format_company_info rt company_data)))"

definition get_crypto_exchange_rate ::
  "runtime \<Rightarrow> environment \<Rightarrow> (string \<times> json) list \<Rightarrow> fault + content list" where
  "get_crypto_exchange_rate rt env arguments =
     (let crypto_symbol = dict_get arguments ''crypto_symbol'' JNull in
      if \<not> truthy crypto_symbol then text_result ''Missing crypto_symbol parameter''
      else
        let market = dict_get arguments ''market'' (JStr ''USD'') in
        bind (py_upper rt crypto_symbol) (\<lambda>crypto_symbol.
        bind (py_upper rt market) (\<lambda>market.
          case make_alpha_request rt env ''CURRENCY_EXCHANGE_RATE'' None
                 (Some [(''from_currency'', JStr crypto_symbol), (''to_currency'', JStr market)]) of
            Failure crypto_data \<Rightarrow> text_result (''Error: '' @ crypto_data)
          | Structured crypto_data \<Rightarrow>
              text_result (''Cryptocurrency exchange rate for '' @ crypto_symbol @ ''/'' @ market @
                           '':\<newline>\<newline>'' @ format_crypto_rate rt crypto_data))))"

definition get_time_series :: "runtime \<Rightarrow> environment \<Rightarrow> (string \<times> json) list \<Rightarrow> fault + content list" where
  "get_time_series rt env arguments =
     (let symbol = dict_get arguments ''symbol'' JNull in
      if \<not> truthy symbol then text_result ''Missing symbol parameter''
      else
        bind (py_upper rt symbol) (\<lambda>symbol.
          let outputsize = dict_get arguments ''outputsize'' (JStr ''compact'') in
          case make_alpha_request rt env ''TIME_SERIES_DAILY'' (Some symbol)
                 (Some [(''outputsize'', outputsize)]) of
            Failure time_series_data \<Rightarrow> text_result (''Error: '' @ time_series_data)
          | Structured time_series_data \<Rightarrow>
              text_result (''Time series data for '' @ symbol @ '':\<newline>\<newline>'' @
                           format_time_series rt time_series_data)))"

definition get_historical_options ::
  "runtime \<Rightarrow> environment \<Rightarrow> (string \<times> json) list \<Rightarrow> fault + content list" where
  "get_historical_options rt env arguments =
     (let symbol = dict_get arguments ''symbol'' JNull;
          date = dict_get arguments ''date'' JNull;
          limit = dict_get arguments ''limit'' (JInt 10);
          sort_by = dict_get arguments ''sort_by'' (JStr ''strike'');
          sort_order = dict_get arguments ''sort_order'' (JStr ''asc'')
      in
      if \<not> truthy symbol then text_result ''Missing symbol parameter''
      else
        bind (py_upper rt symbol) (\<lambda>symbol.
          let params = (if truthy date then [(''date'', date)] else []) in
          case make_alpha_request rt env ''HISTORICAL_OPTIONS'' (Some symbol) (Some params) of
            Failure options_data \<Rightarrow> text_result (''Error: '' @ options_data)
          | Structured options_data \<Rightarrow>
              text_result (''Historical options data for '' @ symbol @
                           (if truthy date then '' on '' @ py_str rt date else []) @
                           '':\<newline>\<newline>'' @
                           format_historical_options rt options_data limit sort_by sort_order)))"

text \<open>
  The four tools built on the absent modules (analyze-technical-setup,
  analyze-institutional-activity, analyze-futures-trade-setup, get-timing-edge) start
  alike: the symbol is read, refused when missing, and put in upper case.
\<close>

definition analysis_tool ::
  "runtime \<Rightarrow> environment \<Rightarrow> string \<Rightarrow> (string \<times> json) list \<Rightarrow> fault + content list" where
  "analysis_tool rt env name arguments =
     (let symbol = dict_get arguments ''symbol'' JNull in
      if \<not> truthy symbol then text_result ''Missing symbol parameter''
      else
        bind (py_upper rt symbol) (\<lambda>symbol.
        bind (analysis env name symbol arguments) text_result))"

definition handle_call_tool ::
  "runtime \<Rightarrow> environment \<Rightarrow> string \<Rightarrow> (string \<times> json) list option \<Rightarrow> fault + content list" where
  "handle_call_tool rt env name arguments =
     (case arguments of
        None \<Rightarrow> text_result ''Missing arguments for the request''
      | Some args \<Rightarrow>
          if args = [] then text_result ''Missing arguments for the request''
          else if name = ''get-stock-quote'' then get_stock_quote rt env args
          else if name = ''get-company-info'' then get_company_info rt env args
          else if name = ''get-crypto-exchange-rate'' then get_crypto_exchange_rate rt env args
          else if name = ''get-time-series'' then get_time_series rt env args
          else if name = ''get-historical-options'' then get_historical_options rt env args
          else if name = ''analyze-technical-setup'' then analysis_tool rt env name args
          else if name = ''analyze-institutional-activity'' then analysis_tool rt env name args
          else if name = ''analyze-futures-trade-setup'' then analysis_tool rt env name args
          else if name = ''get-timing-edge'' then analysis_tool rt env name args
          else text_result (''Unknown tool: '' @ name))"

section \<open>Notions used in the statements\<close>

text \<open>The tools whose input schema requires the argument "symbol" (server.py, handle_list_tools).\<close>

definition symbol_tools :: "string list" where
  "symbol_tools =
     [''get-stock-quote'', ''get-company-info'', ''get-time-series'', ''get-historical-options'',
      ''analyze-technical-setup'', ''analyze-institutional-activity'',
      ''analyze-futures-trade-setup'', ''get-timing-edge'']"

text \<open>
  What the interpreter guarantees of \<^verbatim>\<open><\<close> between lists: when it holds one way, it is
  defined and false the other way.
\<close>

definition seq_lt_asymmetric :: "runtime \<Rightarrow> bool" where
  "seq_lt_asymmetric rt = (\<forall>xs ys. seq_lt rt xs ys = Some True \<longrightarrow> seq_lt rt ys xs = Some False)"

text \<open>A string without its \<open>$\<close> and \<open>%\<close> characters.\<close>

definition strip_signs :: "string \<Rightarrow> string" where
  "strip_signs s = filter (\<lambda>c. c \<noteq> CHR ''$'' \<and> c \<noteq> CHR ''%'') s"

text \<open>A field of a dictionary as a report shows it: the value printed, or the default.\<close>

definition shown :: "runtime \<Rightarrow> (string \<times> json) list \<Rightarrow> string \<Rightarrow> string \<Rightarrow> string" where
  "shown rt d k dflt = py_str rt (dict_get d k (JStr dflt))"

text \<open>The items of a value that is a dictionary.\<close>

definition obj_items :: "json \<Rightarrow> (string \<times> json) list" where
  "obj_items v = (case v of JObj d \<Rightarrow> d | _ \<Rightarrow> [])"

text \<open>The block of a time-series report for one date and the fields of that day.\<close>

definition day_text :: "runtime \<Rightarrow> string \<Rightarrow> (string \<times> json) list \<Rightarrow> string" where
  "day_text rt date values =
     ''Date: '' @ date @ ''\<newline>'' @
     ''Open: $'' @ shown rt values ''1. open'' ''N/A'' @ ''\<newline>'' @
     ''High: $'' @ shown rt values ''2. high'' ''N/A'' @ ''\<newline>'' @
     ''Low: $'' @ shown rt values ''3. low'' ''N/A'' @ ''\<newline>'' @
     ''Close: $'' @ shown rt values ''4. close'' ''N/A'' @ ''\<newline>'' @
     ''Volume: '' @ shown rt values ''5. volume'' ''N/A'' @ ''\<newline>'' @
     ''---\<newline>''"

text \<open>The header of an options report and the block of one contract with the given fields.\<close>

definition options_header :: "runtime \<Rightarrow> (string \<times> json) list \<Rightarrow> json \<Rightarrow> json \<Rightarrow> string" where
  "options_header rt options sort_by sort_order =
     ''Historical Options Data:\<newline>'' @
     ''Status: '' @ shown rt options ''message'' ''N/A'' @ ''\<newline>'' @
     ''Sorted by: '' @ py_str rt sort_by @ '' ('' @ py_str rt sort_order @ '')\<newline>\<newline>''"

definition contract_text :: "runtime \<Rightarrow> (string \<times> json) list \<Rightarrow> string" where
  "contract_text rt c =
     ''Contract Details:\<newline>'' @
     ''Contract ID: '' @ shown rt c ''contractID'' ''N/A'' @ ''\<newline>'' @
     ''Expiration: '' @ shown rt c ''expiration'' ''N/A'' @ ''\<newline>'' @
     ''Strike: $'' @ shown rt c ''strike'' ''N/A'' @ ''\<newline>'' @
     ''Type: '' @ shown rt c ''type'' ''N/A'' @ ''\<newline>'' @
     ''Last: $'' @ shown rt c ''last'' ''N/A'' @ ''\<newline>'' @
     ''Mark: $'' @ shown rt c ''mark'' ''N/A'' @ ''\<newline>'' @
     ''Bid: $'' @ shown rt c ''bid'' ''N/A'' @ '' (Size: '' @ shown rt c ''bid_size'' ''N/A'' @ '')\<newline>'' @
     ''Ask: $'' @ shown rt c ''ask'' ''N/A'' @ '' (Size: '' @ shown rt c ''ask_size'' ''N/A'' @ '')\<newline>'' @
     ''Volume: '' @ shown rt c ''volume'' ''N/A'' @ ''\<newline>'' @
     ''Open Interest: '' @ shown rt c ''open_interest'' ''N/A'' @ ''\<newline>'' @
     ''IV: '' @ shown rt c ''implied_volatility'' ''N/A'' @ ''\<newline>'' @
     ''Delta: '' @ shown rt c ''delta'' ''N/A'' @ ''\<newline>'' @
     ''Gamma: '' @ shown rt c ''gamma'' ''N/A'' @ ''\<newline>'' @
     ''Theta: '' @ shown rt c ''theta'' ''N/A'' @ ''\<newline>'' @
     ''Vega: '' @ shown rt c ''vega'' ''N/A'' @ ''\<newline>'' @
     ''Rho: '' @ shown rt c ''rho'' ''N/A'' @ ''\<newline>'' @
     ''---\<newline>''"

text \<open>A sort key that is a number other than not-a-number, and one that is not negative.\<close>

definition number_key :: "json \<Rightarrow> bool" where
  "number_key k = (case k of JFloat x \<Rightarrow> x \<noteq> NaN | _ \<Rightarrow> False)"

definition zero_key :: "json \<Rightarrow> bool" where
  "zero_key k = (case k of JFloat x \<Rightarrow> float_eq x (Finite 0) | _ \<Rightarrow> False)"

definition nonnegative_key :: "json \<Rightarrow> bool" where
  "nonnegative_key k = (case k of JFloat x \<Rightarrow> x \<noteq> NaN \<and> \<not> float_lt x (Finite 0) | _ \<Rightarrow> False)"

section \<open>A runtime and an environment for the concrete evaluations\<close>

text \<open>
  The theorems hold for every runtime and every environment. Where a statement is
  evaluated on a concrete input, this runtime is used: \<^verbatim>\<open>float\<close> reads a string of decimal
  digits as that integer and refuses a string with a character that is no digit (the
  concrete inputs contain no other numeric strings), upper case is that of ASCII, and the
  texts of AttributeError and of the TypeError of a comparison are those of CPython. The
  concrete inputs hold no float to print, no integer beyond \<open>2 ^ 53\<close> and no list as a sort
  key, so the entries for these are never consulted.
\<close>

fun type_name :: "json \<Rightarrow> string" where
  "type_name JNull = ''NoneType''"
| "type_name (JBool b) = ''bool''"
| "type_name (JInt i) = ''int''"
| "type_name (JFloat f) = ''float''"
| "type_name (JStr s) = ''str''"
| "type_name (JList xs) = ''list''"
| "type_name (JObj kvs) = ''dict''"

definition quoted :: "string \<Rightarrow> string" where
  "quoted s = [CHR 0x27] @ s @ [CHR 0x27]"

fun sample_fault_text :: "fault \<Rightarrow> string" where
  "sample_fault_text (NoAttribute v a) =
     quoted (type_name v) @ '' object has no attribute '' @ quoted a"
| "sample_fault_text (Unorderable oper a b) =
     quoted oper @ '' not supported between instances of '' @ quoted (type_name a) @
     '' and '' @ quoted (type_name b)"
| "sample_fault_text (KeyMissing k) = quoted k"
| "sample_fault_text (IntTooLarge i) = ''int too large to convert to float''"
| "sample_fault_text e = ''TypeError''"

definition is_digit :: "char \<Rightarrow> bool" where
  "is_digit c = (CHR ''0'' \<le> c \<and> c \<le> CHR ''9'')"

fun digits_val :: "nat \<Rightarrow> string \<Rightarrow> nat" where
  "digits_val acc [] = acc"
| "digits_val acc (c # cs) = digits_val (10 * acc + (of_char c - 48)) cs"

definition float_of_digits :: "string \<Rightarrow> pyfloat option" where
  "float_of_digits s =
     (if s \<noteq> [] \<and> list_all is_digit s then Some (Finite (of_nat (digits_val 0 s))) else None)"

definition ascii_upper :: "char \<Rightarrow> char" where
  "ascii_upper c = (if CHR ''a'' \<le> c \<and> c \<le> CHR ''z'' then char_of (of_char c - (32::nat)) else c)"

definition sample_runtime :: runtime where
  "sample_runtime =
     \<lparr> float_of_str = float_of_digits,
       float_of_big_int = (\<lambda>i. None),
       float_repr = (\<lambda>f. ''float''),
       str_repr = quoted,
       seq_lt = (\<lambda>xs ys. None),
       fault_text = sample_fault_text,
       str_upper = map ascii_upper \<rparr>"

text \<open>An environment whose server answers every request with status 200 and a fixed body.\<close>

definition answering :: "json \<Rightarrow> environment" where
  "answering body =
     \<lparr> API_KEY = Some ''demo'',
       http_get = (\<lambda>params. Response \<lparr> status_code = 200, resp_text = [], resp_json = Inr body,
                                         status_error = [] \<rparr>),
       analysis = (\<lambda>name symbol arguments. Inr []) \<rparr>"

text \<open>Concrete inputs: a time series of six days, and three option chains.\<close>

definition six_days :: "(string \<times> json) list" where
  "six_days =
     [(''2024-01-08'', JObj [(''1. open'', JStr ''6''), (''4. close'', JStr ''7'')]),
      (''2024-01-05'', JObj [(''1. open'', JStr ''5'')]),
      (''2024-01-04'', JObj [(''1. open'', JStr ''4'')]),
      (''2024-01-03'', JObj [(''1. open'', JStr ''3'')]),
      (''2024-01-02'', JObj [(''1. open'', JStr ''2'')]),
      (''2024-01-01'', JObj [(''1. open'', JStr ''1'')])]"

definition three_strikes :: "json list" where
  "three_strikes =
     [JObj [(''strike'', JStr ''105'')], JObj [(''strike'', JStr ''95'')],
      JObj [(''strike'', JStr ''100'')]]"

definition mixed_expirations :: "json list" where
  "mixed_expirations =
     [JObj [(''contractID'', JStr ''A''), (''expiration'', JStr ''2024-01-19'')],
      JObj [(''contractID'', JStr ''B'')]]"

definition missing_strikes :: "json list" where
  "missing_strikes =
     [JObj [(''strike'', JStr ''5'')], JObj [(''contractID'', JStr ''A'')],
      JObj [(''contractID'', JStr ''B'')]]"

section \<open>Properties\<close>

subsection \<open>Basic facts\<close>

lemma bind_Inr [simp]: "bind (Inr v) f = f v"
  by (simp add: bind_def)

lemma bind_Inl [simp]: "bind (Inl e) f = Inl e"
  by (simp add: bind_def)

lemma py_str_JStr [simp]: "py_str rt (JStr s) = s"
  by (simp add: py_str_def)

lemma key_in_dict: "(k \<in> fst ` set kvs) = (map_of kvs k \<noteq> None)"
  by (simp add: map_of_eq_None_iff)

lemma dict_get_Some [simp]: "map_of d k = Some v \<Longrightarrow> dict_get d k dflt = v"
  by (simp add: dict_get_def)

lemma dict_get_None [simp]: "map_of d k = None \<Longrightarrow> dict_get d k dflt = dflt"
  by (simp add: dict_get_def)

lemma py_get_JObj [simp]: "py_get (JObj kvs) k dflt = Inr (dict_get kvs k dflt)"
  by (simp add: py_get_def)

lemma field_JObj [simp]: "field rt (JObj kvs) k dflt = Inr (shown rt kvs k dflt)"
  by (simp add: field_def shown_def)

lemma lit_simp [simp]: "lit s = Inr s"
  by (simp add: lit_def)

text \<open>The substring test is the one of Python: the pattern occurs somewhere in the string.\<close>

lemma is_prefix_iff: "is_prefix p s = (\<exists>t. s = p @ t)"
  by (induction p s rule: is_prefix.induct) auto

lemma is_substring_iff: "is_substring p s = (\<exists>a b. s = a @ p @ b)"
proof (induction s)
  case Nil
  then show ?case by auto
next
  case (Cons c s)
  show ?case
  proof
    assume "is_substring p (c # s)"
    then consider "is_prefix p (c # s)" | "is_substring p s" by auto
    then show "\<exists>a b. c # s = a @ p @ b"
    proof cases
      case 1
      then obtain t where "c # s = p @ t" by (auto simp: is_prefix_iff)
      then have "c # s = [] @ p @ t" by simp
      then show ?thesis by blast
    next
      case 2
      then obtain a b where "s = a @ p @ b" using Cons.IH by auto
      then have "c # s = (c # a) @ p @ b" by simp
      then show ?thesis by blast
    qed
  next
    assume "\<exists>a b. c # s = a @ p @ b"
    then obtain a b where ab: "c # s = a @ p @ b" by auto
    show "is_substring p (c # s)"
    proof (cases a)
      case Nil
      then have "is_prefix p (c # s)" using ab by (simp add: is_prefix_iff)
      then show ?thesis by simp
    next
      case (Cons d a')
      then have "s = a' @ p @ b" using ab by simp
      then show ?thesis using Cons.IH by auto
    qed
  qed
qed

subsection \<open>The gateway\<close>

lemma provider_checks_error:
  "map_of kvs ''Error Message'' = Some m \<Longrightarrow>
   provider_checks rt (JObj kvs) = Inr (Failure (''Alpha Vantage API error: '' @ py_str rt m))"
  by (simp add: provider_checks_def py_in_def py_subscript_def key_in_dict)

lemma provider_checks_note:
  "map_of kvs ''Error Message'' = None \<Longrightarrow> map_of kvs ''Note'' = Some (JStr note) \<Longrightarrow>
   is_substring ''API call frequency'' note \<Longrightarrow>
   provider_checks rt (JObj kvs) = Inr (Failure (''Rate limit warning: '' @ note))"
  by (simp add: provider_checks_def py_in_def py_subscript_def key_in_dict)

text \<open>
  Claim C1. The server answers with a 2xx status and a body that decodes to a JSON object.
  If the object has the field "Error Message", \<open>make_alpha_request\<close> returns the failure
  string "Alpha Vantage API error: " followed by the field printed by \<^verbatim>\<open>str\<close>, which for a
  string field is its exact text; it does not return the structured body. If the object has
  no such field but a "Note" whose text contains "API call frequency", it returns the
  failure string "Rate limit warning: " followed by the note.
\<close>

theorem make_alpha_request_provider_error:
  assumes "http_get env (request_params env function symbol additional_params) = Response r"
    and "200 \<le> status_code r" and "status_code r \<le> 299"
    and "resp_json r = Inr (JObj kvs)"
  shows "(\<forall>m. map_of kvs ''Error Message'' = Some m \<longrightarrow>
            make_alpha_request rt env function symbol additional_params =
              Failure (''Alpha Vantage API error: '' @ py_str rt m))
       \<and> (\<forall>s. map_of kvs ''Error Message'' = Some (JStr s) \<longrightarrow>
            make_alpha_request rt env function symbol additional_params =
              Failure (''Alpha Vantage API error: '' @ s))
       \<and> (\<forall>note. map_of kvs ''Error Message'' = None \<and> map_of kvs ''Note'' = Some (JStr note) \<and>
            is_substring ''API call frequency'' note \<longrightarrow>
            make_alpha_request rt env function symbol additional_params =
              Failure (''Rate limit warning: '' @ note))"
  using assms
  by (auto simp: make_alpha_request_def is_success_def provider_checks_error provider_checks_note)

theorem make_alpha_request_provider_error_witness:
  "make_alpha_request sample_runtime
     (answering (JObj [(''Error Message'', JStr ''Invalid API call.'')]))
     ''GLOBAL_QUOTE'' (Some ''IBM'') None
   = Failure ''Alpha Vantage API error: Invalid API call.''
   \<and> make_alpha_request sample_runtime
     (answering (JObj [(''Note'', JStr ''Our standard API call frequency is 25 per day.'')]))
     ''GLOBAL_QUOTE'' (Some ''IBM'') None
   = Failure ''Rate limit warning: Our standard API call frequency is 25 per day.''"
  using
    make_alpha_request_provider_error
      [of "answering (JObj [(''Error Message'', JStr ''Invalid API call.'')])"
          "''GLOBAL_QUOTE''" "Some ''IBM''" None
          "\<lparr> status_code = 200, resp_text = [], resp_json = Inr (JObj [(''Error Message'', JStr ''Invalid API call.'')]), status_error = [] \<rparr>"
          "[(''Error Message'', JStr ''Invalid API call.'')]" sample_runtime]
    make_alpha_request_provider_error
      [of "answering (JObj [(''Note'', JStr ''Our standard API call frequency is 25 per day.'')])"
          "''GLOBAL_QUOTE''" "Some ''IBM''" None
          "\<lparr> status_code = 200, resp_text = [], resp_json = Inr (JObj [(''Note'', JStr ''Our standard API call frequency is 25 per day.'')]), status_error = [] \<rparr>"
          "[(''Note'', JStr ''Our standard API call frequency is 25 per day.'')]" sample_runtime]
  by (simp add: answering_def)

lemma map_of_dict_setitem: "map_of (dict_setitem k v d) = (map_of d)(k \<mapsto> v)"
  by (induction d) (auto simp: fun_eq_iff)

lemma map_of_dict_update: "map_of (dict_update d e) = map_of d ++ map_of (rev e)"
proof (induction e arbitrary: d)
  case Nil
  then show ?case by simp
next
  case (Cons p ps)
  have "map_of (dict_update d (p # ps)) =
          map_of (dict_setitem (fst p) (snd p) d) ++ map_of (rev ps)"
    using Cons.IH by simp
  also have "\<dots> = map_of d ++ map_of (rev (p # ps))"
    by (cases p) (auto simp: map_of_dict_setitem map_add_def fun_eq_iff split: option.splits)
  finally show ?case .
qed

lemma keys_dict_setitem: "fst ` set (dict_setitem k v d) = insert k (fst ` set d)"
  by (induction d) auto

lemma keys_dict_update: "fst ` set (dict_update d e) = fst ` set d \<union> fst ` set e"
  by (induction e arbitrary: d) (auto simp: keys_dict_setitem)

text \<open>
  Claim C7, as stated, fails: the query parameters hold the key "symbol" also when the
  symbol argument is None, as in the request of get-crypto-exchange-rate.
\<close>

theorem request_params_symbol_counterexample:
  "''symbol'' \<in> fst ` set (request_params (answering JNull) ''CURRENCY_EXCHANGE_RATE'' None
      (Some [(''from_currency'', JStr ''BTC''), (''to_currency'', JStr ''USD'')]))"
  by (simp add: request_params_def)

text \<open>
  Claim C7, amended. The query parameters always hold the three keys "function", "symbol"
  and "apikey", the symbol being None when the argument is; the additional parameters (a
  dictionary, so with distinct keys) are merged last: the mapping is the three entries
  overridden by the additional ones, and its keys are the three and the additional ones.
\<close>

theorem request_params_contents:
  assumes "distinct (map fst (case additional_params of None \<Rightarrow> [] | Some extra \<Rightarrow> extra))"
  shows "map_of (request_params env function symbol additional_params) =
           map_of [(''function'', JStr function), (''symbol'', opt_str symbol),
                   (''apikey'', opt_str (API_KEY env))]
           ++ map_of (case additional_params of None \<Rightarrow> [] | Some extra \<Rightarrow> extra)
       \<and> fst ` set (request_params env function symbol additional_params) =
           {''function'', ''symbol'', ''apikey''}
           \<union> fst ` set (case additional_params of None \<Rightarrow> [] | Some extra \<Rightarrow> extra)"
proof (cases additional_params)
  case None
  then show ?thesis by (auto simp: request_params_def Let_def)
next
  case (Some extra)
  then have d: "distinct (map fst extra)" using assms by simp
  have r: "map_of (rev extra) = map_of extra"
    using d by (simp add: map_of_inject_set distinct_map)
  have m: "map_of (request_params env function symbol (Some extra)) =
             map_of [(''function'', JStr function), (''symbol'', opt_str symbol),
                     (''apikey'', opt_str (API_KEY env))] ++ map_of extra"
    by (cases "extra = []") (simp_all add: request_params_def Let_def map_of_dict_update r)
  have k: "fst ` set (request_params env function symbol (Some extra)) =
             {''function'', ''symbol'', ''apikey''} \<union> fst ` set extra"
    by (cases "extra = []") (auto simp: request_params_def Let_def keys_dict_update)
  show ?thesis using m k by (simp add: Some)
qed

theorem request_params_contents_witness:
  "distinct (map fst [(''from_currency'', JStr ''BTC''), (''symbol'', JStr ''X'')])
   \<and> map_of (request_params (answering JNull) ''CURRENCY_EXCHANGE_RATE'' None
        (Some [(''from_currency'', JStr ''BTC''), (''symbol'', JStr ''X'')])) ''symbol''
       = Some (JStr ''X'')
   \<and> map_of (request_params (answering JNull) ''CURRENCY_EXCHANGE_RATE'' None
        (Some [(''from_currency'', JStr ''BTC''), (''symbol'', JStr ''X'')])) ''function''
       = Some (JStr ''CURRENCY_EXCHANGE_RATE'')"
  using request_params_contents
      [of "Some [(''from_currency'', JStr ''BTC''), (''symbol'', JStr ''X'')]"
          "answering JNull" "''CURRENCY_EXCHANGE_RATE''" None]
  by simp

subsection \<open>The guard of the formatters\<close>

lemma guard_cases:
  "(\<exists>s. body = Inr s \<and> guard rt what body = s)
   \<or> (\<exists>e. body = Inl e \<and>
          guard rt what body = ''Error formatting '' @ what @ '' data: '' @ fault_text rt e)"
  by (cases body) (simp_all add: guard_def)



subsection \<open>format_company_info\<close>

text \<open>
  Claim C8, as stated, fails: the formatter has a case for the missing container. On the
  empty overview object it returns the no-data message, not a report of placeholders.
\<close>

theorem format_company_info_empty_counterexample:
  "format_company_info sample_runtime (JObj []) = ''No company information available in the response''"
  by (simp add: format_company_info_def format_company_info_body_def guard_def)

text \<open>
  Claim C8, amended. On an absent (None) or empty overview object \<open>format_company_info\<close>
  returns "No company information available in the response". On every non-empty overview
  object it renders the full fixed-layout report, each field that the object lacks shown as
  "N/A"; when the object has none of the seven fields, every one is shown as "N/A".
\<close>

theorem format_company_info_cases:
  "format_company_info rt JNull = ''No company information available in the response''
   \<and> format_company_info rt (JObj []) = ''No company information available in the response''
   \<and> (kvs \<noteq> [] \<longrightarrow>
        format_company_info rt (JObj kvs) =
          ''Name: '' @ shown rt kvs ''Name'' ''N/A'' @ ''\<newline>'' @
          ''Sector: '' @ shown rt kvs ''Sector'' ''N/A'' @ ''\<newline>'' @
          ''Industry: '' @ shown rt kvs ''Industry'' ''N/A'' @ ''\<newline>'' @
          ''Market Cap: $'' @ shown rt kvs ''MarketCapitalization'' ''N/A'' @ ''\<newline>'' @
          ''Description: '' @ shown rt kvs ''Description'' ''N/A'' @ ''\<newline>'' @
          ''Exchange: '' @ shown rt kvs ''Exchange'' ''N/A'' @ ''\<newline>'' @
          ''Currency: '' @ shown rt kvs ''Currency'' ''N/A'' @ ''\<newline>'' @
          ''---'')
   \<and> (kvs \<noteq> [] \<and>
        (\<forall>k \<in> set [''Name'', ''Sector'', ''Industry'', ''MarketCapitalization'',
                     ''Description'', ''Exchange'', ''Currency'']. map_of kvs k = None) \<longrightarrow>
        format_company_info rt (JObj kvs) =
          ''Name: N/A\<newline>Sector: N/A\<newline>Industry: N/A\<newline>Market Cap: $N/A\<newline>Description: N/A\<newline>Exchange: N/A\<newline>Currency: N/A\<newline>---'')"
  by (simp add: format_company_info_def format_company_info_body_def guard_def shown_def)

theorem format_company_info_cases_witness:
  "format_company_info sample_runtime (JObj [(''Symbol'', JStr ''IBM'')]) =
     ''Name: N/A\<newline>Sector: N/A\<newline>Industry: N/A\<newline>Market Cap: $N/A\<newline>Description: N/A\<newline>Exchange: N/A\<newline>Currency: N/A\<newline>---''"
  using format_company_info_cases [of sample_runtime "[(''Symbol'', JStr ''IBM'')]"]
  by (simp add: shown_def)

subsection \<open>Tool dispatch\<close>

text \<open>
  Claim C9, as stated, fails: the empty argument mapping lacks "symbol", and the handler
  answers it with "Missing arguments for the request" before it looks at the tool.
\<close>

theorem handle_call_tool_empty_counterexample:
  "handle_call_tool sample_runtime (answering JNull) ''get-stock-quote'' (Some []) =
     Inr [TextContent ''Missing arguments for the request'']"
  by (simp add: handle_call_tool_def text_result_def)

text \<open>
  Claim C9, amended. For every tool that requires "symbol", a call with a non-empty
  argument mapping that lacks "symbol" returns the single text "Missing symbol parameter",
  as a result and not as an exception; a call with no argument mapping or with the empty
  one returns the single text "Missing arguments for the request".
\<close>

theorem handle_call_tool_missing_symbol:
  assumes "name \<in> set symbol_tools"
  shows "handle_call_tool rt env name None = Inr [TextContent ''Missing arguments for the request'']
       \<and> handle_call_tool rt env name (Some []) =
           Inr [TextContent ''Missing arguments for the request'']
       \<and> (\<forall>args. args \<noteq> [] \<and> map_of args ''symbol'' = None \<longrightarrow>
            handle_call_tool rt env name (Some args) = Inr [TextContent ''Missing symbol parameter''])"
proof -
  have missing:
    "handle_call_tool rt env name (Some args) = Inr [TextContent ''Missing symbol parameter'']"
    if "args \<noteq> []" and "map_of args ''symbol'' = None" for args
    using assms that
    by (auto simp: symbol_tools_def handle_call_tool_def text_result_def get_stock_quote_def
          get_company_info_def get_time_series_def get_historical_options_def analysis_tool_def)
  show ?thesis using missing by (simp add: handle_call_tool_def text_result_def)
qed

theorem handle_call_tool_missing_symbol_witness:
  "''get-timing-edge'' \<in> set symbol_tools \<and>
   handle_call_tool sample_runtime (answering JNull) ''get-timing-edge'' (Some [(''limit'', JInt 5)])
     = Inr [TextContent ''Missing symbol parameter'']"
  using handle_call_tool_missing_symbol [of "''get-timing-edge''" sample_runtime "answering JNull"]
  by (simp add: symbol_tools_def)

subsection \<open>The sort key\<close>

lemma remove_both: "remove_char (CHR ''%'') (remove_char (CHR ''$'') s) = strip_signs s"
  by (induction s) (auto simp: remove_char_def strip_signs_def)

text \<open>
  Claim C5, as stated, fails: when the number cannot be read, the key is not the raw value
  of the field but the string without its \<open>$\<close> and \<open>%\<close>. The field "$abc" gives the key "abc".
\<close>

theorem get_sort_key_raw_counterexample:
  "get_sort_key sample_runtime (JStr ''strike'') (JObj [(''strike'', JStr ''$abc'')]) =
     Inr (JStr ''abc'')"
  by (simp add: get_sort_key_def py_get_any_def remove_char_def sample_runtime_def
        float_of_digits_def is_digit_def)

text \<open>
  Claim C5, amended. For every contract and sort field: a string value is stripped of all
  its \<open>$\<close> and \<open>%\<close> characters and read as a number, which is then the key; if it cannot be
  read, the key is the stripped string (not the raw value). A float is its own key and an
  integer up to \<open>2 ^ 53\<close> is the key as a float. None, a list or a dictionary is the key
  as it is. Two string keys compare lexicographically.
\<close>

theorem get_sort_key_cases:
  "(\<forall>s. map_of kvs f = Some (JStr s) \<longrightarrow>
       get_sort_key rt (JStr f) (JObj kvs) =
         Inr (case float_of_str rt (strip_signs s) of
                Some x \<Rightarrow> JFloat x
              | None \<Rightarrow> JStr (strip_signs s)))
   \<and> (\<forall>x. map_of kvs f = Some (JFloat x) \<longrightarrow> get_sort_key rt (JStr f) (JObj kvs) = Inr (JFloat x))
   \<and> (\<forall>i. map_of kvs f = Some (JInt i) \<and> \<bar>i\<bar> \<le> 2 ^ 53 \<longrightarrow>
         get_sort_key rt (JStr f) (JObj kvs) = Inr (JFloat (Finite (of_int i))))
   \<and> (\<forall>v. map_of kvs f = Some v \<and> (v = JNull \<or> (\<exists>xs. v = JList xs) \<or> (\<exists>d. v = JObj d)) \<longrightarrow>
         get_sort_key rt (JStr f) (JObj kvs) = Inr v)
   \<and> (\<forall>a b. py_lt rt (JStr a) (JStr b) = Inr (a < b))"
  by (auto simp: get_sort_key_def py_get_any_def remove_both float_of_int_def py_lt_def
           split: option.splits)

theorem get_sort_key_cases_witness:
  "get_sort_key sample_runtime (JStr ''strike'') (JObj [(''strike'', JStr ''$105'')]) =
     Inr (JFloat (Finite 105))
   \<and> get_sort_key sample_runtime (JStr ''expiration'') (JObj [(''expiration'', JStr ''2024-01-19'')]) =
     Inr (JStr ''2024-01-19'')
   \<and> get_sort_key sample_runtime (JStr ''strike'') (JObj [(''strike'', JNull)]) = Inr JNull"
  using get_sort_key_cases [of "[(''strike'', JStr ''$105'')]" "''strike''" sample_runtime]
        get_sort_key_cases [of "[(''expiration'', JStr ''2024-01-19'')]" "''expiration''" sample_runtime]
        get_sort_key_cases [of "[(''strike'', JNull)]" "''strike''" sample_runtime]
  by (simp add: strip_signs_def sample_runtime_def float_of_digits_def is_digit_def)

text \<open>The definitions that a concrete evaluation unfolds.\<close>

lemmas eval_defs = py_sorted_def py_iter_def sorted_by_key_def get_sort_key_def py_get_any_def
     remove_char_def sample_runtime_def float_of_digits_def is_digit_def py_lt_def float_of_int_def
     py_eq_str_def float_lt_def

subsection \<open>format_time_series\<close>

lemma map_bind_total:
  "(\<And>x. x \<in> set xs \<Longrightarrow> f x = Inr (g x)) \<Longrightarrow> map_bind f xs = Inr (map g xs)"
  by (induction xs) simp_all

lemma day_block_JObj: "day_block rt (date, JObj vs) = Inr (day_text rt date vs)"
  by (simp add: day_block_def day_text_def)

lemma day_block_item:
  "snd item = JObj vs \<Longrightarrow> day_block rt item = Inr (day_text rt (fst item) (obj_items (snd item)))"
  by (cases item) (simp add: day_block_JObj obj_items_def)

text \<open>
  Claim C6. The payload is a dictionary whose "Time Series (Daily)" is a non-empty
  dictionary from dates to the dictionaries of the days, and whose "Meta Data", when there
  is one, is a dictionary. Then \<open>format_time_series\<close> returns the header line with the symbol
  and the last-refreshed date of the metadata, followed by the blocks of the first five
  dates in the order of the mapping, joined by newlines; with five or more dates (so with
  six) these are exactly five blocks. If "Time Series (Daily)" is absent or empty it
  returns "No time series data available in the response".
\<close>

theorem format_time_series_report:
  "(map_of kvs ''Time Series (Daily)'' = Some (JObj items) \<and> items \<noteq> [] \<and>
    dict_get kvs ''Meta Data'' (JObj []) = JObj md \<and>
    (\<forall>item \<in> set (take 5 items). \<exists>vs. snd item = JObj vs) \<longrightarrow>
      format_time_series rt (JObj kvs) =
        py_join ''\<newline>''
          ((''Time Series Data for '' @ shown rt md ''2. Symbol'' ''Unknown'' @
            '' (Last Refreshed: '' @ shown rt md ''3. Last Refreshed'' ''Unknown'' @ '')\<newline>\<newline>'')
           # map (\<lambda>item. day_text rt (fst item) (obj_items (snd item))) (take 5 items))
      \<and> (5 \<le> length items \<longrightarrow>
           length (map (\<lambda>item. day_text rt (fst item) (obj_items (snd item))) (take 5 items)) = 5))
   \<and> (map_of kvs ''Time Series (Daily)'' = None \<or>
      map_of kvs ''Time Series (Daily)'' = Some (JObj []) \<longrightarrow>
      format_time_series rt (JObj kvs) = ''No time series data available in the response'')"
proof -
  have report: "format_time_series rt (JObj kvs) =
        py_join ''\<newline>''
          ((''Time Series Data for '' @ shown rt md ''2. Symbol'' ''Unknown'' @
            '' (Last Refreshed: '' @ shown rt md ''3. Last Refreshed'' ''Unknown'' @ '')\<newline>\<newline>'')
           # map (\<lambda>item. day_text rt (fst item) (obj_items (snd item))) (take 5 items))"
    if ts: "map_of kvs ''Time Series (Daily)'' = Some (JObj items)" and ne: "items \<noteq> []"
      and md: "dict_get kvs ''Meta Data'' (JObj []) = JObj md"
      and days: "\<forall>item \<in> set (take 5 items). \<exists>vs. snd item = JObj vs"
  proof -
    have blocks: "map_bind (day_block rt) (take 5 items) =
        Inr (map (\<lambda>item. day_text rt (fst item) (obj_items (snd item))) (take 5 items))"
      using days by (intro map_bind_total) (auto simp: day_block_item)
    show ?thesis
      using ts ne md blocks
      by (simp add: format_time_series_def format_time_series_body_def guard_def py_items_def
            shown_def Let_def)
  qed
  have nodata: "format_time_series rt (JObj kvs) = ''No time series data available in the response''"
    if "map_of kvs ''Time Series (Daily)'' = None \<or> map_of kvs ''Time Series (Daily)'' = Some (JObj [])"
    using that
    by (auto simp: format_time_series_def format_time_series_body_def guard_def)
  show ?thesis using report nodata by auto
qed

theorem format_time_series_report_witness:
  "format_time_series sample_runtime
     (JObj [(''Meta Data'', JObj [(''2. Symbol'', JStr ''IBM''), (''3. Last Refreshed'', JStr ''2024-01-08'')]),
            (''Time Series (Daily)'', JObj six_days)])
   = ''Time Series Data for IBM (Last Refreshed: 2024-01-08)\<newline>\<newline>\<newline>'' @
     ''Date: 2024-01-08\<newline>Open: $6\<newline>High: $N/A\<newline>Low: $N/A\<newline>Close: $7\<newline>Volume: N/A\<newline>---\<newline>\<newline>'' @
     ''Date: 2024-01-05\<newline>Open: $5\<newline>High: $N/A\<newline>Low: $N/A\<newline>Close: $N/A\<newline>Volume: N/A\<newline>---\<newline>\<newline>'' @
     ''Date: 2024-01-04\<newline>Open: $4\<newline>High: $N/A\<newline>Low: $N/A\<newline>Close: $N/A\<newline>Volume: N/A\<newline>---\<newline>\<newline>'' @
     ''Date: 2024-01-03\<newline>Open: $3\<newline>High: $N/A\<newline>Low: $N/A\<newline>Close: $N/A\<newline>Volume: N/A\<newline>---\<newline>\<newline>'' @
     ''Date: 2024-01-02\<newline>Open: $2\<newline>High: $N/A\<newline>Low: $N/A\<newline>Close: $N/A\<newline>Volume: N/A\<newline>---\<newline>''"
  using format_time_series_report
    [of "[(''Meta Data'', JObj [(''2. Symbol'', JStr ''IBM''), (''3. Last Refreshed'', JStr ''2024-01-08'')]),
          (''Time Series (Daily)'', JObj six_days)]"
        six_days
        "[(''2. Symbol'', JStr ''IBM''), (''3. Last Refreshed'', JStr ''2024-01-08'')]"
        sample_runtime]
  by (simp add: six_days_def day_text_def shown_def obj_items_def)

subsection \<open>Sorting\<close>

lemma bind_eq_Inr: "(bind m f = Inr y) = (\<exists>v. m = Inr v \<and> f v = Inr y)"
  by (cases m) simp_all

lemma map_bind_Inr:
  "map_bind f xs = Inr ys \<Longrightarrow> length ys = length xs \<and> (\<forall>i < length xs. f (xs ! i) = Inr (ys ! i))"
proof (induction xs arbitrary: ys)
  case Nil
  then show ?case by simp
next
  case (Cons x xs)
  then obtain y ys' where y: "f x = Inr y" and ys': "map_bind f xs = Inr ys'" and eq: "ys = y # ys'"
    by (auto simp: bind_eq_Inr)
  have "length ys' = length xs \<and> (\<forall>i < length xs. f (xs ! i) = Inr (ys' ! i))"
    using Cons.IH ys' by blast
  then show ?case using y eq by (auto simp: nth_Cons split: nat.splits)
qed

lemma float_lt_asym: "float_lt a b \<Longrightarrow> \<not> float_lt b a"
  by (auto simp: float_lt_def split: option.splits)

lemma py_lt_asym:
  assumes "seq_lt_asymmetric rt" and "py_lt rt a b = Inr True"
  shows "py_lt rt b a = Inr False"
proof (cases "num_val a")
  case (Some x)
  then show ?thesis
  proof (cases "num_val b")
    case None
    then show ?thesis using assms(2) Some
      by (cases a; cases b) (simp_all add: py_lt_def)
  next
    case (Some y)
    then show ?thesis using assms(2) \<open>num_val a = Some x\<close>
      by (auto simp: py_lt_def dest: float_lt_asym)
  qed
next
  case None
  then show ?thesis using assms
    by (cases a; cases b)
       (auto simp: py_lt_def seq_lt_asymmetric_def split: option.splits)
qed

lemma insert_key_split:
  "insert_key rt x ys = Inr zs \<Longrightarrow>
   \<exists>as bs. ys = as @ bs \<and> zs = as @ x # bs \<and>
     (\<forall>a \<in> set as. py_lt rt (fst a) (fst x) = Inr True) \<and>
     (case bs of [] \<Rightarrow> True | b # _ \<Rightarrow> py_lt rt (fst b) (fst x) = Inr False)"
proof (induction ys arbitrary: zs)
  case Nil
  then show ?case by auto
next
  case (Cons y ys)
  from Cons.prems obtain less where less: "py_lt rt (fst y) (fst x) = Inr less"
    and rest: "(if less then bind (insert_key rt x ys) (\<lambda>zs. Inr (y # zs)) else Inr (x # y # ys)) = Inr zs"
    by (auto simp: bind_eq_Inr)
  show ?case
  proof (cases less)
    case False
    then have "zs = x # y # ys" using rest by simp
    then have "y # ys = [] @ (y # ys) \<and> zs = [] @ x # (y # ys)" by simp
    then show ?thesis using less False
      by (intro exI[of _ "[]"] exI[of _ "y # ys"]) simp
  next
    case True
    then obtain zs' where zs': "insert_key rt x ys = Inr zs'" and eq: "zs = y # zs'"
      using rest by (auto simp: bind_eq_Inr)
    from Cons.IH [OF zs'] obtain as bs where
      s: "ys = as @ bs" "zs' = as @ x # bs" "\<forall>a \<in> set as. py_lt rt (fst a) (fst x) = Inr True"
         "(case bs of [] \<Rightarrow> True | b # _ \<Rightarrow> py_lt rt (fst b) (fst x) = Inr False)"
      by blast
    show ?thesis
      using s eq less True
      by (intro exI[of _ "y # as"] exI[of _ bs]) simp
  qed
qed

lemma insert_key_mset: "insert_key rt x ys = Inr zs \<Longrightarrow> mset zs = add_mset x (mset ys)"
  by (drule insert_key_split) auto

lemma sort_pairs_mset: "sort_pairs rt xs = Inr ys \<Longrightarrow> mset ys = mset xs"
proof (induction xs arbitrary: ys)
  case Nil
  then show ?case by simp
next
  case (Cons x xs)
  then obtain ys' where "sort_pairs rt xs = Inr ys'" and "insert_key rt x ys' = Inr ys"
    by (auto simp: bind_eq_Inr)
  then show ?case using Cons.IH insert_key_mset by fastforce
qed

text \<open>No element is followed by one with a smaller key.\<close>

lemma successively_append_Cons:
  "successively P (as @ x # bs) =
     (successively P as \<and> (as = [] \<or> P (last as) x) \<and> (bs = [] \<or> P x (hd bs)) \<and> successively P bs)"
  by (cases bs) (auto simp: successively_append_iff successively_Cons)

lemma insert_key_no_descent:
  assumes asym: "seq_lt_asymmetric rt"
    and ys: "successively (\<lambda>p q. py_lt rt (fst q) (fst p) = Inr False) ys"
    and ins: "insert_key rt x ys = Inr zs"
  shows "successively (\<lambda>p q. py_lt rt (fst q) (fst p) = Inr False) zs"
proof -
  from insert_key_split [OF ins] obtain as bs where
    s: "ys = as @ bs" "zs = as @ x # bs" "\<forall>a \<in> set as. py_lt rt (fst a) (fst x) = Inr True"
       "(case bs of [] \<Rightarrow> True | b # _ \<Rightarrow> py_lt rt (fst b) (fst x) = Inr False)"
    by blast
  have a: "successively (\<lambda>p q. py_lt rt (fst q) (fst p) = Inr False) as"
    and b: "successively (\<lambda>p q. py_lt rt (fst q) (fst p) = Inr False) bs"
    using ys s(1) by (auto simp: successively_append_iff)
  have l: "as = [] \<or> py_lt rt (fst x) (fst (last as)) = Inr False"
    using s(3) py_lt_asym [OF asym] by (cases "as = []") auto
  have h: "bs = [] \<or> py_lt rt (fst (hd bs)) (fst x) = Inr False"
    using s(4) by (cases bs) auto
  show ?thesis unfolding s(2) successively_append_Cons using a b l h by simp
qed

lemma sort_pairs_no_descent:
  assumes "seq_lt_asymmetric rt" and "sort_pairs rt xs = Inr ys"
  shows "successively (\<lambda>p q. py_lt rt (fst q) (fst p) = Inr False) ys"
  using assms(2)
proof (induction xs arbitrary: ys)
  case Nil
  then show ?case by simp
next
  case (Cons x xs)
  then obtain ys' where "sort_pairs rt xs = Inr ys'" and "insert_key rt x ys' = Inr ys"
    by (auto simp: bind_eq_Inr)
  then show ?case using Cons.IH insert_key_no_descent [OF assms(1)] by blast
qed

lemma sort_pairs_fixed:
  "successively (\<lambda>p q. py_lt rt (fst q) (fst p) = Inr False) ys \<Longrightarrow> sort_pairs rt ys = Inr ys"
proof (induction ys)
  case Nil
  then show ?case by simp
next
  case (Cons y ys)
  then have "sort_pairs rt ys = Inr ys" by (cases ys) auto
  then show ?case using Cons.prems by (cases ys) auto
qed

lemma sort_pairs_idem:
  "seq_lt_asymmetric rt \<Longrightarrow> sort_pairs rt xs = Inr ys \<Longrightarrow> sort_pairs rt ys = Inr ys"
  by (rule sort_pairs_fixed) (rule sort_pairs_no_descent)

lemma map_bind_keys:
  "(\<And>p. p \<in> set ps \<Longrightarrow> key (snd p) = Inr (fst p)) \<Longrightarrow> map_bind key (map snd ps) = Inr (map fst ps)"
  by (induction ps) simp_all

lemma zip_keys:
  assumes "map_bind key xs = Inr ks"
  shows "\<forall>p \<in> set (zip ks xs). key (snd p) = Inr (fst p)"
  using map_bind_Inr [OF assms] by (auto simp: set_zip)

lemma sorted_by_key_idem:
  assumes asym: "seq_lt_asymmetric rt"
    and once: "sorted_by_key rt key reverse xs = Inr ys"
  shows "sorted_by_key rt key reverse ys = Inr ys"
proof -
  from once obtain ks sp where
    ks: "map_bind key xs = Inr ks"
    and sp: "sort_pairs rt (if reverse then rev (zip ks xs) else zip ks xs) = Inr sp"
    and ys: "ys = map snd (if reverse then rev sp else sp)"
    by (auto simp: sorted_by_key_def Let_def bind_eq_Inr)
  have "set sp = set (zip ks xs)"
    using sort_pairs_mset [OF sp] by (metis mset_rev set_mset_mset)
  then have consistent: "\<forall>p \<in> set sp. key (snd p) = Inr (fst p)"
    using zip_keys [OF ks] by simp
  let ?out = "if reverse then rev sp else sp"
  have keys: "map_bind key ys = Inr (map fst ?out)"
    unfolding ys using consistent by (intro map_bind_keys) (auto split: if_splits)
  have z: "zip (map fst ?out) ys = ?out"
    unfolding ys by (simp add: zip_map_fst_snd)
  have again: "sort_pairs rt (if reverse then rev ?out else ?out) = Inr sp"
    using sort_pairs_idem [OF asym sp] by simp
  have "sorted_by_key rt key reverse ys =
          bind (map_bind key ys) (\<lambda>keys.
            bind (sort_pairs rt (if reverse then rev (zip keys ys) else zip keys ys)) (\<lambda>sorted_pairs.
              Inr (map snd (if reverse then rev sorted_pairs else sorted_pairs))))"
    by (simp add: sorted_by_key_def Let_def)
  also have "\<dots> =
          bind (sort_pairs rt (if reverse then rev (zip (map fst ?out) ys) else zip (map fst ?out) ys))
            (\<lambda>sorted_pairs. Inr (map snd (if reverse then rev sorted_pairs else sorted_pairs)))"
    by (simp only: keys bind_Inr)
  also have "\<dots> =
          bind (sort_pairs rt (if reverse then rev ?out else ?out))
            (\<lambda>sorted_pairs. Inr (map snd (if reverse then rev sorted_pairs else sorted_pairs)))"
    by (simp only: z)
  also have "\<dots> = Inr (map snd ?out)"
    by (simp only: again bind_Inr)
  finally show ?thesis by (simp only: ys)
qed




subsection \<open>format_historical_options\<close>

lemma sorted_by_key_mset:
  assumes "sorted_by_key rt key reverse xs = Inr ys"
  shows "mset ys = mset xs"
proof -
  from assms obtain ks sp where
    ks: "map_bind key xs = Inr ks"
    and sp: "sort_pairs rt (if reverse then rev (zip ks xs) else zip ks xs) = Inr sp"
    and ys: "ys = map snd (if reverse then rev sp else sp)"
    by (auto simp: sorted_by_key_def Let_def bind_eq_Inr)
  have len: "length ks = length xs" using map_bind_Inr [OF ks] by simp
  have "mset sp = mset (zip ks xs)" using sort_pairs_mset [OF sp] by (simp split: if_splits)
  then have "mset (map snd sp) = mset (map snd (zip ks xs))" by simp
  then have "mset (map snd sp) = mset xs" using len by simp
  then show ?thesis unfolding ys by (simp split: if_splits)
qed

lemma sorted_by_key_keys:
  assumes "sorted_by_key rt key reverse xs = Inr ys" and "y \<in> set ys"
  shows "\<exists>k. key y = Inr k"
proof -
  from assms(1) obtain ks where ks: "map_bind key xs = Inr ks"
    by (auto simp: sorted_by_key_def Let_def bind_eq_Inr)
  have "y \<in> set xs" using sorted_by_key_mset [OF assms(1)] assms(2) by (metis set_mset_mset)
  then obtain i where "i < length xs" "xs ! i = y" by (auto simp: in_set_conv_nth)
  then show ?thesis using map_bind_Inr [OF ks] by auto
qed

lemma get_sort_key_dict: "get_sort_key rt sort_by c = Inr k \<Longrightarrow> \<exists>d. c = JObj d"
  by (cases c) (simp_all add: get_sort_key_def py_get_any_def)

lemma contract_block_JObj: "contract_block rt (JObj c) = Inr (contract_text rt c)"
  by (simp add: contract_block_def contract_text_def)

lemma contract_block_keyed:
  "get_sort_key rt sort_by c = Inr k \<Longrightarrow> contract_block rt c = Inr (contract_text rt (obj_items c))"
  by (auto dest!: get_sort_key_dict simp: contract_block_JObj obj_items_def)

lemma py_eq_int_JInt [simp]: "py_eq_int (JInt n) m = (n = m)"
  by (simp add: py_eq_int_def float_eq_def)




subsection \<open>Contracts without the sort field\<close>

lemma float_rank_None [simp]: "(float_rank x = None) = (x = NaN)"
  by (cases x) simp_all

lemma float_le_trans:
  "x \<noteq> NaN \<Longrightarrow> y \<noteq> NaN \<Longrightarrow> z \<noteq> NaN \<Longrightarrow>
   \<not> float_lt y x \<Longrightarrow> \<not> float_lt z y \<Longrightarrow> \<not> float_lt z x"
  by (auto simp: float_lt_def split: option.splits)

lemma number_le_trans:
  assumes "number_key a" "number_key b" "number_key c"
    and "py_lt rt b a = Inr False" and "py_lt rt c b = Inr False"
  shows "py_lt rt c a = Inr False"
  using assms
  by (cases a; cases b; cases c) (auto simp: number_key_def py_lt_def dest: float_le_trans)

lemma number_lt_asym:
  assumes "number_key a" "number_key b" and "py_lt rt a b = Inr True"
  shows "py_lt rt b a = Inr False"
  using assms
  by (cases a; cases b) (auto simp: number_key_def py_lt_def dest: float_lt_asym)

lemma insert_key_sorted:
  assumes keys: "number_key (fst x)" "\<forall>p \<in> set ys. number_key (fst p)"
    and ys: "sorted_wrt (\<lambda>p q. py_lt rt (fst q) (fst p) = Inr False) ys"
    and ins: "insert_key rt x ys = Inr zs"
  shows "sorted_wrt (\<lambda>p q. py_lt rt (fst q) (fst p) = Inr False) zs"
proof -
  from insert_key_split [OF ins] obtain as bs where
    s: "ys = as @ bs" "zs = as @ x # bs" "\<forall>a \<in> set as. py_lt rt (fst a) (fst x) = Inr True"
       "(case bs of [] \<Rightarrow> True | b # _ \<Rightarrow> py_lt rt (fst b) (fst x) = Inr False)"
    by blast
  have before: "py_lt rt (fst x) (fst a) = Inr False" if "a \<in> set as" for a
    using that s(1,3) keys number_lt_asym by auto
  have after: "py_lt rt (fst b) (fst x) = Inr False" if "b \<in> set bs" for b
  proof (cases bs)
    case Nil
    then show ?thesis using that by simp
  next
    case (Cons b0 bs')
    then have b0: "py_lt rt (fst b0) (fst x) = Inr False" using s(4) by simp
    show ?thesis
    proof (cases "b = b0")
      case True
      then show ?thesis using b0 by simp
    next
      case False
      then have "b \<in> set bs'" using that Cons by simp
      then have "py_lt rt (fst b) (fst b0) = Inr False"
        using ys s(1) Cons by (auto simp: sorted_wrt_append)
      moreover have "number_key (fst b0)" "number_key (fst b)"
        using keys(2) s(1) Cons that by auto
      ultimately show ?thesis using number_le_trans [OF keys(1) _ _ b0] by blast
    qed
  qed
  show ?thesis
    using ys before after unfolding s(1,2) by (auto simp: sorted_wrt_append)
qed

lemma sort_pairs_sorted:
  assumes "\<forall>p \<in> set xs. number_key (fst p)" and "sort_pairs rt xs = Inr ys"
  shows "sorted_wrt (\<lambda>p q. py_lt rt (fst q) (fst p) = Inr False) ys"
  using assms
proof (induction xs arbitrary: ys)
  case Nil
  then show ?case by simp
next
  case (Cons x xs)
  then obtain ys' where ys': "sort_pairs rt xs = Inr ys'" and ins: "insert_key rt x ys' = Inr ys"
    by (auto simp: bind_eq_Inr)
  have "set ys' = set xs" using sort_pairs_mset [OF ys'] by (metis set_mset_mset)
  then have k: "\<forall>p \<in> set ys'. number_key (fst p)" using Cons.prems(1) by simp
  have "sorted_wrt (\<lambda>p q. py_lt rt (fst q) (fst p) = Inr False) ys'"
    using Cons.IH ys' Cons.prems(1) by simp
  then show ?case using insert_key_sorted [OF _ k _ ins] Cons.prems(1) by simp
qed

lemma nonnegative_number: "nonnegative_key k \<Longrightarrow> number_key k"
  by (cases k) (simp_all add: nonnegative_key_def number_key_def)

lemma nonnegative_not_above_zero:
  "nonnegative_key k \<Longrightarrow> py_lt rt (JFloat (Finite 0)) k = Inr False \<Longrightarrow> zero_key k"
  by (cases k)
     (auto simp: nonnegative_key_def zero_key_def py_lt_def float_lt_def float_eq_def
           split: option.splits)

lemma get_sort_key_missing:
  "map_of kvs f = None \<Longrightarrow> get_sort_key rt (JStr f) (JObj kvs) = Inr (JFloat (Finite 0))"
  by (simp add: get_sort_key_def py_get_any_def float_of_int_def)

text \<open>
  Claim C10. A contract without the sort field has the sort key \<open>0.0\<close>, the same key as if the
  field were there with the value 0. In an ascending sort whose keys are all numbers that
  are not negative, every contract placed before a contract without the field has a zero
  key as well: the contract comes first, after no contract with a positive key.
\<close>

theorem missing_sort_field_is_zero:
  "(map_of kvs f = None \<longrightarrow>
      get_sort_key rt (JStr f) (JObj kvs) = Inr (JFloat (Finite 0)) \<and>
      get_sort_key rt (JStr f) (JObj kvs) = get_sort_key rt (JStr f) (JObj (kvs @ [(f, JInt 0)])))
   \<and> (py_sorted rt (get_sort_key rt (JStr f)) False (JList chain) = Inr ys \<and>
      (\<forall>c \<in> set chain. \<exists>k. get_sort_key rt (JStr f) c = Inr k \<and> nonnegative_key k) \<and>
      i < length ys \<and> ys ! i = JObj kvs \<and> map_of kvs f = None \<and> j < i \<longrightarrow>
      (\<exists>k. get_sort_key rt (JStr f) (ys ! j) = Inr k \<and> zero_key k))"
proof -
  have first: "get_sort_key rt (JStr f) (JObj kvs) = get_sort_key rt (JStr f) (JObj (kvs @ [(f, JInt 0)]))"
    if "map_of kvs f = None"
    using that by (simp add: get_sort_key_def py_get_any_def float_of_int_def dict_get_def map_add_def)
  have second: "\<exists>k. get_sort_key rt (JStr f) (ys ! j) = Inr k \<and> zero_key k"
    if srt: "py_sorted rt (get_sort_key rt (JStr f)) False (JList chain) = Inr ys"
      and nn: "\<forall>c \<in> set chain. \<exists>k. get_sort_key rt (JStr f) c = Inr k \<and> nonnegative_key k"
      and i: "i < length ys" "ys ! i = JObj kvs" "map_of kvs f = None" and j: "j < i"
  proof -
    from srt obtain ks sp where
      ks: "map_bind (get_sort_key rt (JStr f)) chain = Inr ks"
      and sp: "sort_pairs rt (zip ks chain) = Inr sp"
      and ys: "ys = map snd sp"
      by (auto simp: py_sorted_def py_iter_def sorted_by_key_def Let_def bind_eq_Inr)
    have set_sp: "set sp = set (zip ks chain)"
      using sort_pairs_mset [OF sp] by (metis set_mset_mset)
    have consistent: "get_sort_key rt (JStr f) (snd p) = Inr (fst p)" if "p \<in> set sp" for p
      using zip_keys [OF ks] that set_sp by auto
    have nonneg: "nonnegative_key (fst p)" if "p \<in> set sp" for p
    proof -
      have "(fst p, snd p) \<in> set (zip ks chain)" using that set_sp by simp
      then have "snd p \<in> set chain" by (rule set_zip_rightD)
      then obtain k where "get_sort_key rt (JStr f) (snd p) = Inr k" "nonnegative_key k"
        using nn by blast
      then show ?thesis using consistent [OF that] by simp
    qed
    have "\<forall>p \<in> set (zip ks chain). number_key (fst p)"
    proof
      fix p assume "p \<in> set (zip ks chain)"
      then have "p \<in> set sp" using set_sp by simp
      then show "number_key (fst p)" by (intro nonnegative_number nonneg)
    qed
    then have sorted: "sorted_wrt (\<lambda>p q. py_lt rt (fst q) (fst p) = Inr False) sp"
      using sp by (rule sort_pairs_sorted)
    have li: "i < length sp" and lj: "j < length sp" using i(1) j ys by auto
    have le: "py_lt rt (fst (sp ! i)) (fst (sp ! j)) = Inr False"
      using sorted_wrt_nth_less [OF sorted j li] .
    have ki: "fst (sp ! i) = JFloat (Finite 0)"
    proof -
      have "get_sort_key rt (JStr f) (snd (sp ! i)) = Inr (fst (sp ! i))"
        using li by (intro consistent) simp
      moreover have "snd (sp ! i) = JObj kvs" using i(2) ys li by simp
      ultimately show ?thesis using get_sort_key_missing [OF i(3), of rt] by simp
    qed
    have "nonnegative_key (fst (sp ! j))" using lj by (intro nonneg) simp
    then have "zero_key (fst (sp ! j))"
      using le unfolding ki by (rule nonnegative_not_above_zero)
    moreover have "get_sort_key rt (JStr f) (ys ! j) = Inr (fst (sp ! j))"
      using consistent [of "sp ! j"] lj ys by simp
    ultimately show ?thesis by blast
  qed
  show ?thesis
  proof (intro conjI impI)
    assume "map_of kvs f = None"
    then show "get_sort_key rt (JStr f) (JObj kvs) = Inr (JFloat (Finite 0))"
      by (rule get_sort_key_missing)
  next
    assume "map_of kvs f = None"
    then show "get_sort_key rt (JStr f) (JObj kvs) =
               get_sort_key rt (JStr f) (JObj (kvs @ [(f, JInt 0)]))"
      by (rule first)
  next
    assume a: "py_sorted rt (get_sort_key rt (JStr f)) False (JList chain) = Inr ys \<and>
      (\<forall>c \<in> set chain. \<exists>k. get_sort_key rt (JStr f) c = Inr k \<and> nonnegative_key k) \<and>
      i < length ys \<and> ys ! i = JObj kvs \<and> map_of kvs f = None \<and> j < i"
    show "\<exists>k. get_sort_key rt (JStr f) (ys ! j) = Inr k \<and> zero_key k"
      by (rule second) (use a in simp_all)
  qed
qed

theorem missing_sort_field_is_zero_witness:
  "py_sorted sample_runtime (get_sort_key sample_runtime (JStr ''strike'')) False (JList missing_strikes)
     = Inr [JObj [(''contractID'', JStr ''A'')], JObj [(''contractID'', JStr ''B'')],
            JObj [(''strike'', JStr ''5'')]]
   \<and> get_sort_key sample_runtime (JStr ''strike'') (JObj [(''contractID'', JStr ''B'')])
     = Inr (JFloat (Finite 0))
   \<and> (\<exists>k. get_sort_key sample_runtime (JStr ''strike'') (JObj [(''contractID'', JStr ''A'')]) = Inr k
          \<and> zero_key k)"
proof -
  have h: "py_sorted sample_runtime (get_sort_key sample_runtime (JStr ''strike'')) False
             (JList missing_strikes)
     = Inr [JObj [(''contractID'', JStr ''A'')], JObj [(''contractID'', JStr ''B'')],
            JObj [(''strike'', JStr ''5'')]]"
    by (simp add: missing_strikes_def eval_defs)
  have nn: "\<forall>c \<in> set missing_strikes.
              \<exists>k. get_sort_key sample_runtime (JStr ''strike'') c = Inr k \<and> nonnegative_key k"
    by (simp add: missing_strikes_def eval_defs nonnegative_key_def)
  show ?thesis
    using h nn
      missing_sort_field_is_zero
        [of "[(''contractID'', JStr ''B'')]" "''strike''" sample_runtime missing_strikes
            "[JObj [(''contractID'', JStr ''A'')], JObj [(''contractID'', JStr ''B'')],
              JObj [(''strike'', JStr ''5'')]]" 1 0]
    by simp
qed

end
